theory Spec2Isabelle
  imports Complex_Main "HOL-Library.Multiset"
begin

section \<open>Python values used by the training pipeline\<close>

subsection \<open>Exceptions\<close>

text \<open>
  The exceptions that the modelled code paths can raise. A function that may raise
  returns \<open>error + 'a\<close>, with \<open>Inl\<close> the exception.
\<close>

datatype error =
    KeyError
  | ValueError
  | OverflowError
  | ZeroDivisionError
  | FileNotFoundError
  | RuntimeError

subsection \<open>Floats\<close>

text \<open>
  A Python \<open>float\<close> is an IEEE-754 binary64 number: a finite value (a rational that is
  representable), an infinity or NaN. Arithmetic computes the exact rational result and
  rounds it to the nearest representable number, ties to even. The sign of zero is not
  modelled: \<open>-0.0\<close> and \<open>0.0\<close> are both \<open>Finite 0\<close>.
\<close>

datatype pyfloat = Finite rat | PosInf | NegInf | NaN

function bit_length :: "int \<Rightarrow> nat" where
  \<comment> \<open>Python's \<open>int.bit_length\<close> on a positive integer\<close>
  "bit_length n = (if n \<le> 0 then 0 else Suc (bit_length (n div 2)))"
  by pat_completeness auto
termination
  by (relation "measure nat") auto

declare bit_length.simps [simp del]

definition pow2 :: "int \<Rightarrow> rat" where
  "pow2 e = (if 0 \<le> e then 2 ^ nat e else 1 / 2 ^ nat (- e))"

definition ilog2 :: "rat \<Rightarrow> int" where
  \<comment> \<open>\<open>\<lfloor>log\<^sub>2 x\<rfloor>\<close> for \<open>x > 0\<close>\<close>
  "ilog2 x =
     (let (p, q) = quotient_of x;
          d = int (bit_length p) - int (bit_length q)
      in if pow2 d \<le> x then d else d - 1)"

definition round_half_even :: "rat \<Rightarrow> int" where
  "round_half_even x =
     (let f = \<lfloor>x\<rfloor>; r = x - of_int f
      in if r < 1 / 2 then f
         else if 1 / 2 < r then f + 1
         else if even f then f else f + 1)"

definition round_ieee :: "nat \<Rightarrow> int \<Rightarrow> rat \<Rightarrow> pyfloat" where
  \<comment> \<open>round to nearest, ties to even, with \<open>p\<close> significand bits and largest exponent
      \<open>emax\<close>; gradual underflow below \<open>2 ^ (1 - emax)\<close>, overflow to an infinity\<close>
  "round_ieee p emax x =
     (if x = 0 then Finite 0
      else
        let e = max (ilog2 \<bar>x\<bar>) (1 - emax);
            q = pow2 (e - (int p - 1));
            m = round_half_even (x / q)
        in if emax < e \<or> (e = emax \<and> 2 ^ p \<le> \<bar>m\<bar>)
           then (if 0 < x then PosInf else NegInf)
           else Finite (of_int m * q))"

definition round_binary64 :: "rat \<Rightarrow> pyfloat" where
  "round_binary64 = round_ieee 53 1023"

definition round_binary32 :: "rat \<Rightarrow> pyfloat" where
  "round_binary32 = round_ieee 24 127"

fun to_float32 :: "pyfloat \<Rightarrow> pyfloat" where
  \<comment> \<open>the value stored by \<open>torch.tensor(..., dtype=torch.float32)\<close>\<close>
  "to_float32 (Finite a) = round_binary32 a"
| "to_float32 x = x"

fun fneg :: "pyfloat \<Rightarrow> pyfloat" where
  "fneg (Finite a) = Finite (- a)"
| "fneg PosInf = NegInf"
| "fneg NegInf = PosInf"
| "fneg NaN = NaN"

fun fadd :: "pyfloat \<Rightarrow> pyfloat \<Rightarrow> pyfloat" where
  "fadd NaN _ = NaN"
| "fadd _ NaN = NaN"
| "fadd (Finite a) (Finite b) = round_binary64 (a + b)"
| "fadd PosInf NegInf = NaN"
| "fadd NegInf PosInf = NaN"
| "fadd PosInf _ = PosInf"
| "fadd NegInf _ = NegInf"
| "fadd (Finite a) PosInf = PosInf"
| "fadd (Finite a) NegInf = NegInf"

definition fsub :: "pyfloat \<Rightarrow> pyfloat \<Rightarrow> pyfloat" where
  "fsub a b = fadd a (fneg b)"

fun fsign :: "pyfloat \<Rightarrow> int" where
  "fsign (Finite a) = sgn \<lfloor>sgn a\<rfloor>"
| "fsign PosInf = 1"
| "fsign NegInf = - 1"
| "fsign NaN = 0"

definition inf_of_sign :: "int \<Rightarrow> pyfloat" where
  "inf_of_sign s = (if s = 0 then NaN else if 0 < s then PosInf else NegInf)"

fun fmul :: "pyfloat \<Rightarrow> pyfloat \<Rightarrow> pyfloat" where
  "fmul NaN _ = NaN"
| "fmul _ NaN = NaN"
| "fmul (Finite a) (Finite b) = round_binary64 (a * b)"
| "fmul a b = inf_of_sign (fsign a * fsign b)"

fun fdiv :: "pyfloat \<Rightarrow> pyfloat \<Rightarrow> pyfloat" where
  \<comment> \<open>the divisor is not zero: Python raises before dividing, see \<open>py_truediv\<close>\<close>
  "fdiv NaN _ = NaN"
| "fdiv _ NaN = NaN"
| "fdiv (Finite a) (Finite b) = round_binary64 (a / b)"
| "fdiv (Finite a) _ = Finite 0"
| "fdiv a (Finite b) = inf_of_sign (fsign a * (if b < 0 then - 1 else 1))"
| "fdiv _ _ = NaN"

fun flt :: "pyfloat \<Rightarrow> pyfloat \<Rightarrow> bool" where
  \<comment> \<open>\<open>a < b\<close>: false whenever an operand is NaN\<close>
  "flt NaN _ = False"
| "flt _ NaN = False"
| "flt (Finite a) (Finite b) = (a < b)"
| "flt PosInf _ = False"
| "flt _ PosInf = True"
| "flt NegInf NegInf = False"
| "flt NegInf _ = True"
| "flt (Finite a) NegInf = False"

definition py_float_of_int :: "int \<Rightarrow> error + pyfloat" where
  \<comment> \<open>the implicit conversion of an \<open>int\<close> operand in mixed arithmetic\<close>
  "py_float_of_int n =
     (case round_binary64 (of_int n) of
        Finite y \<Rightarrow> Inr (Finite y)
      | _ \<Rightarrow> Inl OverflowError)"

fun py_int :: "pyfloat \<Rightarrow> error + int" where
  \<comment> \<open>\<open>int(x)\<close> truncates toward zero\<close>
  "py_int (Finite a) = Inr (if 0 \<le> a then \<lfloor>a\<rfloor> else \<lceil>a\<rceil>)"
| "py_int NaN = Inl ValueError"
| "py_int _ = Inl OverflowError"

definition py_truediv :: "pyfloat \<Rightarrow> int \<Rightarrow> error + pyfloat" where
  \<comment> \<open>\<open>x / k\<close> for a float \<open>x\<close> and an int \<open>k\<close>\<close>
  "py_truediv x k =
     (case py_float_of_int k of
        Inl e \<Rightarrow> Inl e
      | Inr d \<Rightarrow> if d = Finite 0 then Inl ZeroDivisionError else Inr (fdiv x d))"

subsection \<open>Slices\<close>

text \<open>
  \<open>xs[:k]\<close> and \<open>xs[k:]\<close> for an integer \<open>k\<close>: a negative bound counts from the
  end, and a bound out of range is clipped.
\<close>

definition slice_bound :: "int \<Rightarrow> nat \<Rightarrow> nat" where
  "slice_bound k n = (if k < 0 then nat (max 0 (int n + k)) else nat (min k (int n)))"

definition slice_upto :: "int \<Rightarrow> 'a list \<Rightarrow> 'a list" where
  "slice_upto k xs = take (slice_bound k (length xs)) xs"

definition slice_from :: "int \<Rightarrow> 'a list \<Rightarrow> 'a list" where
  "slice_from k xs = drop (slice_bound k (length xs)) xs"

section \<open>dataset.py\<close>

definition FEATURE_COLS :: "string list" where
  "FEATURE_COLS =
     [''twaSin'', ''twaCos'', ''windSpeed'', ''boatSpeed'',
      ''bearingToMarkSin'', ''bearingToMarkCos'', ''distToMark'',
      ''legUpwind'', ''legDownwind'', ''tack'', ''raceTime'',
      ''stallTimer'', ''tackTimer'',
      ''near1Bearing'', ''near1Dist'',
      ''near2Bearing'', ''near2Dist'',
      ''near3Bearing'', ''near3Dist'']"

definition TARGET_COLS :: "string list" where
  "TARGET_COLS = [''target_twa_sin'', ''target_twa_cos'']"

definition INPUT_DIM :: nat where
  "INPUT_DIM = length FEATURE_COLS"

definition OUTPUT_DIM :: nat where
  "OUTPUT_DIM = length TARGET_COLS"

text \<open>
  The frame that \<open>pd.read_csv\<close> returns: the header and the rows of numeric cells.
  The file system maps a path to the frame parsed from the file there.
\<close>

record dataframe =
  columns :: "string list"
  rows :: "pyfloat list list"

type_synonym filesystem = "string \<rightharpoonup> dataframe"

definition read_csv :: "filesystem \<Rightarrow> string \<Rightarrow> error + dataframe" where
  "read_csv fs csv_path =
     (case fs csv_path of None \<Rightarrow> Inl FileNotFoundError | Some df \<Rightarrow> Inr df)"

definition cell :: "string list \<Rightarrow> pyfloat list \<Rightarrow> string \<Rightarrow> pyfloat" where
  \<comment> \<open>a row shorter than the header is padded with NaN by the parser\<close>
  "cell header row c = (case map_of (zip header row) c of Some v \<Rightarrow> v | None \<Rightarrow> NaN)"

definition select_values :: "dataframe \<Rightarrow> string list \<Rightarrow> error + pyfloat list list" where
  \<comment> \<open>\<open>df[cols].values\<close>: a missing column raises \<open>KeyError\<close>\<close>
  "select_values df cs =
     (if set cs \<subseteq> set (columns df)
      then Inr (map (\<lambda>row. map (cell (columns df) row) cs) (rows df))
      else Inl KeyError)"

record SailingDataset =
  features :: "pyfloat list list"
  targets :: "pyfloat list list"

definition SailingDataset_init :: "filesystem \<Rightarrow> string \<Rightarrow> error + SailingDataset" where
  "SailingDataset_init fs csv_path =
     (case read_csv fs csv_path of
        Inl e \<Rightarrow> Inl e
      | Inr df \<Rightarrow>
          (case select_values df FEATURE_COLS of
             Inl e \<Rightarrow> Inl e
           | Inr fv \<Rightarrow>
               (case select_values df TARGET_COLS of
                  Inl e \<Rightarrow> Inl e
                | Inr tv \<Rightarrow>
                    Inr \<lparr>features = map (map to_float32) fv,
                         targets = map (map to_float32) tv\<rparr>)))"

definition SailingDataset_len :: "SailingDataset \<Rightarrow> nat" where
  "SailingDataset_len ds = length (features ds)"

text \<open>\<open>torch.utils.data.Subset\<close>: a view of a dataset through a list of indices.\<close>

record Subset =
  dataset :: SailingDataset
  indices :: "nat list"

definition Subset_len :: "Subset \<Rightarrow> nat" where
  "Subset_len v = length (indices v)"

text \<open>
  The two calls into NumPy's random module. \<open>default_rng\<close> builds a fresh generator:
  from the seed when it is given one, and from the entropy of the operating system,
  whatever it is at the time of the call, when it is given \<open>None\<close>; it rejects some seeds.
  \<open>permutation\<close> draws a permutation of \<open>range(n)\<close> from a generator. The generator of
  \<open>load_and_split\<close> is local to the call, so its state after the draw is not kept.
\<close>

record ('w, 'g) numpy =
  default_rng :: "'w \<Rightarrow> int option \<Rightarrow> error + 'g"
  permutation :: "'g \<Rightarrow> nat \<Rightarrow> nat list"

definition split_float :: "nat \<Rightarrow> pyfloat \<Rightarrow> error + pyfloat" where
  \<comment> \<open>\<open>n * (1 - val_fraction)\<close>: both integers are converted to floats first\<close>
  "split_float n val_fraction =
     (case py_float_of_int (int n) of
        Inl e \<Rightarrow> Inl e
      | Inr fn \<Rightarrow> Inr (fmul fn (fsub (Finite 1) val_fraction)))"

definition split_index :: "nat \<Rightarrow> pyfloat \<Rightarrow> error + int" where
  \<comment> \<open>\<open>int(n * (1 - val_fraction))\<close>\<close>
  "split_index n val_fraction =
     (case split_float n val_fraction of
        Inl e \<Rightarrow> Inl e
      | Inr x \<Rightarrow> py_int x)"

definition load_and_split ::
  "('w, 'g) numpy \<Rightarrow> 'w \<Rightarrow> filesystem \<Rightarrow> string \<Rightarrow> pyfloat \<Rightarrow> int
     \<Rightarrow> error + (Subset \<times> Subset)" where
  \<comment> \<open>\<open>entropy\<close> is the state of the operating system's entropy source at the call\<close>
  "load_and_split np entropy fs csv_path val_fraction seed =
     (case SailingDataset_init fs csv_path of
        Inl e \<Rightarrow> Inl e
      | Inr ds \<Rightarrow>
          let n = SailingDataset_len ds in
          (case default_rng np entropy (Some seed) of
             Inl e \<Rightarrow> Inl e
           | Inr rng \<Rightarrow>
               let idx = permutation np rng n in
               (case split_index n val_fraction of
                  Inl e \<Rightarrow> Inl e
                | Inr split \<Rightarrow>
                    let train_idx = slice_upto split idx;
                        val_idx = slice_from split idx
                    in Inr (\<lparr>dataset = ds, indices = train_idx\<rparr>,
                            \<lparr>dataset = ds, indices = val_idx\<rparr>))))"

definition view_indices :: "error + (Subset \<times> Subset) \<Rightarrow> error + (nat list \<times> nat list)" where
  \<comment> \<open>the index lists of the two views that a call returned\<close>
  "view_indices r =
     (case r of Inl e \<Rightarrow> Inl e | Inr (tr, va) \<Rightarrow> Inr (indices tr, indices va))"

definition val_fraction_default :: pyfloat where
  \<comment> \<open>the literal \<open>0.2\<close>\<close>
  "val_fraction_default = round_binary64 (2 / 10)"

definition seed_default :: int where
  "seed_default = 42"

section \<open>model.py\<close>

text \<open>
  A batch is a list of rows. The element type is left open: only \<open>0\<close>, \<open>+\<close>, \<open>*\<close> and
  the order are used, so what follows holds for any arithmetic of the backend.
\<close>

definition dot :: "'a::{zero,plus,times} list \<Rightarrow> 'a list \<Rightarrow> 'a" where
  "dot xs ys = foldl (+) 0 (map2 (*) xs ys)"

definition affine :: "'a::{zero,plus,times} list list \<Rightarrow> 'a list \<Rightarrow> 'a list list \<Rightarrow> 'a list list" where
  \<comment> \<open>\<open>x W\<^sup>T + b\<close>, row by row: one output per row of \<open>W\<close>\<close>
  "affine W b x = map (\<lambda>r. map2 (+) (map (dot r) W) b) x"

record 'a Linear =
  in_features :: nat
  out_features :: nat
  weight :: "'a list list"
  bias :: "'a list"

definition Linear_init ::
  "(nat \<Rightarrow> nat \<Rightarrow> 'a) \<Rightarrow> (nat \<Rightarrow> 'a) \<Rightarrow> nat \<Rightarrow> nat \<Rightarrow> 'a Linear" where
  \<comment> \<open>\<open>nn.Linear(n_in, n_out)\<close>: a weight of shape \<open>(n_out, n_in)\<close> and a bias of shape
      \<open>(n_out)\<close>; the initial values \<open>w r c\<close> and \<open>b r\<close> are whatever the library draws\<close>
  "Linear_init w b n_in n_out =
     \<lparr>in_features = n_in, out_features = n_out,
      weight = map (\<lambda>r. map (w r) [0..<n_in]) [0..<n_out],
      bias = map b [0..<n_out]\<rparr>"

definition Linear_forward ::
  "'a::{zero,plus,times} Linear \<Rightarrow> 'a list list \<Rightarrow> error + 'a list list" where
  \<comment> \<open>rows of another width cannot be multiplied: \<open>RuntimeError\<close>\<close>
  "Linear_forward l x =
     (if list_all (\<lambda>r. length r = in_features l) x
      then Inr (affine (weight l) (bias l) x)
      else Inl RuntimeError)"

definition ReLU_forward :: "'a::{zero,ord} list list \<Rightarrow> 'a list list" where
  "ReLU_forward x = map (map (max 0)) x"

datatype 'a module = Linear "'a Linear" | ReLU

fun module_forward :: "'a::{zero,plus,times,ord} module \<Rightarrow> 'a list list \<Rightarrow> error + 'a list list" where
  "module_forward (Linear l) x = Linear_forward l x"
| "module_forward ReLU x = Inr (ReLU_forward x)"

fun Sequential_forward ::
  "'a::{zero,plus,times,ord} module list \<Rightarrow> 'a list list \<Rightarrow> error + 'a list list" where
  \<comment> \<open>\<open>nn.Sequential\<close>: each module is applied to the output of the one before\<close>
  "Sequential_forward [] x = Inr x"
| "Sequential_forward (m # ms) x =
     (case module_forward m x of
        Inl e \<Rightarrow> Inl e
      | Inr y \<Rightarrow> Sequential_forward ms y)"

record 'a SailingAI =
  net :: "'a module list"

definition SailingAI_init ::
  "(nat \<Rightarrow> nat \<Rightarrow> nat \<Rightarrow> 'a) \<Rightarrow> (nat \<Rightarrow> nat \<Rightarrow> 'a) \<Rightarrow> nat \<Rightarrow> nat \<Rightarrow> 'a SailingAI" where
  \<comment> \<open>\<open>w k\<close> and \<open>b k\<close> are the initial values of the module at position \<open>k\<close>\<close>
  "SailingAI_init w b input_dim output_dim =
     \<lparr>net =
        [Linear (Linear_init (w 0) (b 0) input_dim 128),
         ReLU,
         Linear (Linear_init (w 2) (b 2) 128 64),
         ReLU,
         Linear (Linear_init (w 4) (b 4) 64 32),
         ReLU,
         Linear (Linear_init (w 6) (b 6) 32 output_dim)]\<rparr>"

definition SailingAI_forward ::
  "'a::{zero,plus,times,ord} SailingAI \<Rightarrow> 'a list list \<Rightarrow> error + 'a list list" where
  "SailingAI_forward m x = Sequential_forward (net m) x"

text \<open>The widths of the affine layers of a model, in order.\<close>

fun layer_widths :: "'a module list \<Rightarrow> (nat \<times> nat) list" where
  "layer_widths [] = []"
| "layer_widths (Linear l # ms) = (in_features l, out_features l) # layer_widths ms"
| "layer_widths (ReLU # ms) = layer_widths ms"

subsection \<open>Parameters by name\<close>

text \<open>
  A tensor of a checkpoint: its shape and its values in row-major order. The state of
  a model maps the name of each parameter, \<open>net.<position>.weight\<close> or
  \<open>net.<position>.bias\<close>, to its tensor.
\<close>

record 'a tensor =
  shape :: "nat list"
  storage :: "'a list"

type_synonym 'a state_dict = "(string \<times> 'a tensor) list"

definition digit_char :: "nat \<Rightarrow> char" where
  "digit_char d = char_of (48 + d)"

fun str_nat :: "nat \<Rightarrow> string" where
  "str_nat n = (if n < 10 then [digit_char n] else str_nat (n div 10) @ [digit_char (n mod 10)])"

declare str_nat.simps [simp del]

definition parameter_name :: "nat \<Rightarrow> string \<Rightarrow> string" where
  "parameter_name k p = ''net.'' @ str_nat k @ ''.'' @ p"

fun module_state :: "nat \<Rightarrow> 'a module \<Rightarrow> 'a state_dict" where
  "module_state k (Linear l) =
     [(parameter_name k ''weight'',
         \<lparr>shape = [out_features l, in_features l], storage = concat (weight l)\<rparr>),
      (parameter_name k ''bias'',
         \<lparr>shape = [out_features l], storage = bias l\<rparr>)]"
| "module_state k ReLU = []"

definition state_dict :: "'a SailingAI \<Rightarrow> 'a state_dict" where
  "state_dict m = concat (map2 module_state [0..<length (net m)] (net m))"

fun module_shapes :: "nat \<Rightarrow> 'a module \<Rightarrow> (string \<times> nat list) list" where
  "module_shapes k (Linear l) =
     [(parameter_name k ''weight'', [out_features l, in_features l]),
      (parameter_name k ''bias'', [out_features l])]"
| "module_shapes k ReLU = []"

definition parameter_shapes :: "'a SailingAI \<Rightarrow> (string \<times> nat list) list" where
  \<comment> \<open>the names and shapes of the parameters that the model declares\<close>
  "parameter_shapes m = concat (map2 module_shapes [0..<length (net m)] (net m))"

definition unflatten :: "nat \<Rightarrow> nat \<Rightarrow> 'a list \<Rightarrow> 'a list list" where
  "unflatten n_out n_in xs = map (\<lambda>r. take n_in (drop (r * n_in) xs)) [0..<n_out]"

fun load_module :: "'a state_dict \<Rightarrow> nat \<Rightarrow> 'a module \<Rightarrow> 'a module" where
  \<comment> \<open>copy the values stored under the module's names into its parameters\<close>
  "load_module sd k (Linear l) =
     Linear (l\<lparr>weight :=
                 (case map_of sd (parameter_name k ''weight'') of
                    None \<Rightarrow> weight l
                  | Some t \<Rightarrow> unflatten (out_features l) (in_features l) (storage t)),
               bias :=
                 (case map_of sd (parameter_name k ''bias'') of
                    None \<Rightarrow> bias l
                  | Some t \<Rightarrow> storage t)\<rparr>)"
| "load_module sd k ReLU = ReLU"

definition load_state_dict :: "'a SailingAI \<Rightarrow> 'a state_dict \<Rightarrow> error + 'a SailingAI" where
  \<comment> \<open>\<open>strict=True\<close>: a missing name, an unexpected name or a tensor of another shape
      is a \<open>RuntimeError\<close>\<close>
  "load_state_dict m sd =
     (let expected = parameter_shapes m;
          missing_keys = filter (\<lambda>k. map_of sd k = None) (map fst expected);
          unexpected_keys = filter (\<lambda>k. k \<notin> set (map fst expected)) (map fst sd);
          size_mismatch =
            filter (\<lambda>(k, s). case map_of sd k of None \<Rightarrow> False | Some t \<Rightarrow> shape t \<noteq> s)
              expected
      in if missing_keys \<noteq> [] \<or> unexpected_keys \<noteq> [] \<or> size_mismatch \<noteq> []
         then Inl RuntimeError
         else Inr (m\<lparr>net := map2 (load_module sd) [0..<length (net m)] (net m)\<rparr>))"

section \<open>export\_onnx.py\<close>

record export_args =
  checkpoint :: string
  output_path :: string

text \<open>
  The exported artifact: the parameters of the traced model and the declarations that
  the call passes to the exporter.
\<close>

record 'a onnx =
  initializers :: "'a state_dict"
  opset_version :: nat
  input_names :: "string list"
  output_names :: "string list"
  dynamic_axes :: "(string \<times> (nat \<times> string) list) list"

text \<open>
  What the exporter reads and writes: the checkpoint files, the artifact files and the
  lines printed so far.
\<close>

record 'a export_world =
  checkpoint_files :: "string \<rightharpoonup> 'a state_dict"
  artifact_files :: "string \<rightharpoonup> 'a onnx"
  printed :: "string list"

definition torch_load :: "(string \<rightharpoonup> 'a state_dict) \<Rightarrow> string \<Rightarrow> error + 'a state_dict" where
  "torch_load files p = (case files p of None \<Rightarrow> Inl FileNotFoundError | Some sd \<Rightarrow> Inr sd)"

definition onnx_export ::
  "'a::{zero,plus,times,ord} SailingAI \<Rightarrow> 'a list list \<Rightarrow> string \<Rightarrow> 'a export_world
     \<Rightarrow> (error + unit) \<times> 'a export_world" where
  \<comment> \<open>\<open>torch.onnx.export\<close>: the model is run once on the dummy input to trace its graph,
      then the artifact is written to the output path\<close>
  "onnx_export model dummy_input out w =
     (case SailingAI_forward model dummy_input of
        Inl e \<Rightarrow> (Inl e, w)
      | Inr y \<Rightarrow>
          (Inr (),
           w\<lparr>artifact_files := (artifact_files w)
                (out \<mapsto> \<lparr>initializers = state_dict model,
                           opset_version = 17,
                           input_names = [''features''],
                           output_names = [''heading''],
                           dynamic_axes =
                             [(''features'', [(0, ''batch_size'')]),
                              (''heading'', [(0, ''batch_size'')])]\<rparr>)\<rparr>))"

definition export ::
  "(nat \<Rightarrow> nat \<Rightarrow> nat \<Rightarrow> 'a) \<Rightarrow> (nat \<Rightarrow> nat \<Rightarrow> 'a) \<Rightarrow> (nat \<Rightarrow> 'a)
     \<Rightarrow> export_args \<Rightarrow> 'a::{zero,plus,times,ord} export_world
     \<Rightarrow> (error + unit) \<times> 'a export_world" where
  \<comment> \<open>\<open>w0\<close> and \<open>b0\<close> are the initial values of the fresh model, \<open>randn\<close> the values of
      the dummy input\<close>
  "export w0 b0 randn args w =
     (let model = SailingAI_init w0 b0 INPUT_DIM OUTPUT_DIM in
      case torch_load (checkpoint_files w) (checkpoint args) of
        Inl e \<Rightarrow> (Inl e, w)
      | Inr sd \<Rightarrow>
          (case load_state_dict model sd of
             Inl e \<Rightarrow> (Inl e, w)
           | Inr model' \<Rightarrow>
               let dummy_input = [map randn [0..<INPUT_DIM]] in
               (case onnx_export model' dummy_input (output_path args) w of
                  (Inl e, w') \<Rightarrow> (Inl e, w')
                | (Inr u, w') \<Rightarrow>
                    (Inr (),
                     w'\<lparr>printed := printed w' @
                         [''ONNX model exported to: '' @ output_path args,
                          ''Input shape: (batch, '' @ str_nat INPUT_DIM @ '')'',
                          ''Output shape: (batch, 2)  [sin(twa), cos(twa)]'']\<rparr>))))"

text \<open>
  A checkpoint matches a model when every parameter that the model declares is stored
  under its name with the declared shape, and nothing else is stored.
\<close>

definition checkpoint_matches :: "'a SailingAI \<Rightarrow> 'a state_dict \<Rightarrow> bool" where
  "checkpoint_matches m sd =
     (list_all (\<lambda>(k, s). case map_of sd k of None \<Rightarrow> False | Some t \<Rightarrow> shape t = s)
        (parameter_shapes m)
      \<and> list_all (\<lambda>k. k \<in> set (map fst (parameter_shapes m))) (map fst sd))"

section \<open>train.py\<close>

record train_args =
  data :: string
  output_file :: string
  epochs :: int
  batch_size :: int
  lr :: pyfloat
  patience :: int

text \<open>
  What the framework does with the model is opaque here. The learner \<open>'m\<close> is
  everything the framework holds during a run: the parameters of the model, the state of
  the optimizer and of the scheduler, and the state of its random generator. A batch is
  the list of the dataset rows it holds.
\<close>

record ('m, 'sd) torch =
  new_learner :: "pyfloat \<Rightarrow> int \<Rightarrow> 'm"
  random_order :: "'m \<Rightarrow> nat list \<Rightarrow> nat list \<times> 'm"
  train_batch :: "'m \<Rightarrow> SailingDataset \<Rightarrow> nat list \<Rightarrow> 'm \<times> pyfloat"
  scheduler_step :: "'m \<Rightarrow> 'm"
  eval_batch :: "'m \<Rightarrow> SailingDataset \<Rightarrow> nat list \<Rightarrow> pyfloat"
  get_last_lr :: "'m \<Rightarrow> pyfloat"
  model_state_dict :: "'m \<Rightarrow> 'sd"
  sampler_rejects_empty :: bool

text \<open>
  \<open>new_learner lr epochs\<close> stands for lines 26 to 29: the model, the optimizer with its
  learning rate and the scheduler with its horizon. \<open>random_order\<close> is the order in which
  a shuffling loader visits its dataset in one pass. \<open>train_batch\<close> stands for lines 39 to
  45, the prediction, the loss, the backward pass and the optimizer step, and returns
  \<open>loss.item()\<close>; \<open>eval_batch\<close> stands for lines 55 to 58. \<open>sampler_rejects_empty\<close> tells
  whether this version of the framework refuses to shuffle an empty dataset.
\<close>

record DataLoader =
  loader_view :: Subset
  loader_batch_size :: nat
  loader_shuffle :: bool
  loader_drop_last :: bool

definition DataLoader_init ::
  "('m, 'sd) torch \<Rightarrow> Subset \<Rightarrow> int \<Rightarrow> bool \<Rightarrow> bool \<Rightarrow> error + DataLoader" where
  "DataLoader_init T view bs shuffle_flag drop_flag =
     (if shuffle_flag \<and> sampler_rejects_empty T \<and> Subset_len view = 0 then Inl ValueError
      else if bs \<le> 0 then Inl ValueError
      else Inr \<lparr>loader_view = view, loader_batch_size = nat bs,
                loader_shuffle = shuffle_flag, loader_drop_last = drop_flag\<rparr>)"

definition batches_of :: "nat \<Rightarrow> bool \<Rightarrow> 'a list \<Rightarrow> 'a list list" where
  \<comment> \<open>consecutive batches of \<open>bs\<close> elements; a shorter last batch is kept or dropped\<close>
  "batches_of bs drop_flag xs =
     (let k = (if drop_flag then length xs div bs else (length xs + bs - 1) div bs)
      in map (\<lambda>i. take bs (drop (i * bs) xs)) [0..<k])"

definition loader_batches :: "('m, 'sd) torch \<Rightarrow> DataLoader \<Rightarrow> 'm \<Rightarrow> nat list list \<times> 'm" where
  \<comment> \<open>one pass over a loader: the batches it yields, as lists of dataset rows\<close>
  "loader_batches T dl m =
     (let (order, m') =
            (if loader_shuffle dl then random_order T m (indices (loader_view dl))
             else (indices (loader_view dl), m))
      in (batches_of (loader_batch_size dl) (loader_drop_last dl) order, m'))"

fun train_loop ::
  "('m, 'sd) torch \<Rightarrow> SailingDataset \<Rightarrow> nat list list \<Rightarrow> 'm \<times> pyfloat \<times> int
     \<Rightarrow> 'm \<times> pyfloat \<times> int" where
  \<comment> \<open>lines 38 to 46, on the model, \<open>train_loss\<close> and \<open>train_batches\<close>\<close>
  "train_loop T ds [] acc = acc"
| "train_loop T ds (b # bs) (m, train_loss, train_batches) =
     (let (m', loss) = train_batch T m ds b
      in train_loop T ds bs (m', fadd train_loss loss, train_batches + 1))"

fun val_loop ::
  "('m, 'sd) torch \<Rightarrow> SailingDataset \<Rightarrow> 'm \<Rightarrow> nat list list \<Rightarrow> pyfloat \<times> int
     \<Rightarrow> pyfloat \<times> int" where
  \<comment> \<open>lines 54 to 59, on \<open>val_loss\<close> and \<open>val_batches\<close>\<close>
  "val_loop T ds m [] acc = acc"
| "val_loop T ds m (b # bs) (val_loss, val_batches) =
     val_loop T ds m bs (fadd val_loss (eval_batch T m ds b), val_batches + 1)"

definition average :: "pyfloat \<Rightarrow> int \<Rightarrow> error + pyfloat" where
  \<comment> \<open>\<open>loss / max(batches, 1)\<close>\<close>
  "average loss batches = py_truediv loss (max batches 1)"

text \<open>The lines that a run prints.\<close>

datatype event =
    UsingDevice
  | Samples nat nat
  | SmallDatasetWarning
  | EpochLine int int pyfloat pyfloat pyfloat
  | SavedBest pyfloat
  | EarlyStopping int int
  | TrainingComplete pyfloat
  | ModelSavedTo string

text \<open>
  The state of a run: the learner, the two variables of the early stopping, the
  checkpoint files and the lines printed so far.
\<close>

record ('m, 'sd) run =
  learner :: 'm
  best_val_loss :: pyfloat
  patience_counter :: int
  checkpoints :: "string \<rightharpoonup> 'sd"
  console :: "event list"

definition epoch_passes ::
  "('m, 'sd) torch \<Rightarrow> DataLoader \<Rightarrow> DataLoader \<Rightarrow> 'm
     \<Rightarrow> 'm \<times> (pyfloat \<times> int) \<times> (pyfloat \<times> int)" where
  \<comment> \<open>lines 35 to 59: the training pass, the scheduler step and the validation pass;
      the learner after them, \<open>(train_loss, train_batches)\<close> and \<open>(val_loss, val_batches)\<close>\<close>
  "epoch_passes T train_loader val_loader m =
     (let (train_bs, m1) = loader_batches T train_loader m;
          (m2, train_loss, train_batches) =
             train_loop T (dataset (loader_view train_loader)) train_bs (m1, Finite 0, 0);
          m3 = scheduler_step T m2;
          (val_bs, m4) = loader_batches T val_loader m3;
          (val_loss, val_batches) =
             val_loop T (dataset (loader_view val_loader)) m4 val_bs (Finite 0, 0)
      in (m4, (train_loss, train_batches), (val_loss, val_batches)))"

definition run_epoch ::
  "('m, 'sd) torch \<Rightarrow> train_args \<Rightarrow> DataLoader \<Rightarrow> DataLoader \<Rightarrow> int \<Rightarrow> ('m, 'sd) run
     \<Rightarrow> error + (('m, 'sd) run \<times> bool)" where
  \<comment> \<open>the body of the epoch loop, lines 35 to 76; the flag is set by \<open>break\<close>\<close>
  "run_epoch T args train_loader val_loader epoch s =
     (case epoch_passes T train_loader val_loader (learner s) of
        (m, (train_loss, train_batches), (val_loss, val_batches)) \<Rightarrow>
          (case average train_loss train_batches of
             Inl e \<Rightarrow> Inl e
           | Inr avg_train \<Rightarrow>
               (case average val_loss val_batches of
                  Inl e \<Rightarrow> Inl e
                | Inr avg_val \<Rightarrow>
                    let line = EpochLine epoch (epochs args) avg_train avg_val (get_last_lr T m)
                    in if flt avg_val (best_val_loss s)
                       then Inr (s\<lparr>learner := m,
                                   best_val_loss := avg_val,
                                   patience_counter := 0,
                                   checkpoints := (checkpoints s)
                                     (output_file args \<mapsto> model_state_dict T m),
                                   console := console s @ [line, SavedBest avg_val]\<rparr>,
                                 False)
                       else if patience args \<le> patience_counter s + 1
                       then Inr (s\<lparr>learner := m,
                                   patience_counter := patience_counter s + 1,
                                   console := console s @
                                     [line, EarlyStopping epoch (patience args)]\<rparr>,
                                 True)
                       else Inr (s\<lparr>learner := m,
                                   patience_counter := patience_counter s + 1,
                                   console := console s @ [line]\<rparr>,
                                 False))))"

fun epoch_loop ::
  "('m, 'sd) torch \<Rightarrow> train_args \<Rightarrow> DataLoader \<Rightarrow> DataLoader \<Rightarrow> int list \<Rightarrow> ('m, 'sd) run
     \<Rightarrow> (error + unit) \<times> ('m, 'sd) run" where
  \<comment> \<open>\<open>for epoch in range(...)\<close>: an exception or a \<open>break\<close> ends the loop\<close>
  "epoch_loop T args train_loader val_loader [] s = (Inr (), s)"
| "epoch_loop T args train_loader val_loader (epoch # rest) s =
     (case run_epoch T args train_loader val_loader epoch s of
        Inl e \<Rightarrow> (Inl e, s)
      | Inr (s', stop) \<Rightarrow>
          if stop then (Inr (), s')
          else epoch_loop T args train_loader val_loader rest s')"

definition train ::
  "('w, 'g) numpy \<Rightarrow> 'w \<Rightarrow> ('m, 'sd) torch \<Rightarrow> filesystem \<Rightarrow> train_args
     \<Rightarrow> (string \<rightharpoonup> 'sd) \<Rightarrow> (error + unit) \<times> (string \<rightharpoonup> 'sd) \<times> event list" where
  \<comment> \<open>the run from the checkpoint files \<open>files\<close>: its outcome, the files and the lines
      printed when it ends\<close>
  "train np entropy T fs args files =
     (let out0 = [UsingDevice] in
      case load_and_split np entropy fs (data args) (round_binary64 (2 / 10)) 42 of
        Inl e \<Rightarrow> (Inl e, files, out0)
      | Inr (train_ds, val_ds) \<Rightarrow>
          let out1 = out0 @ [Samples (Subset_len train_ds) (Subset_len val_ds)];
              out2 = (if Subset_len train_ds < 100 then out1 @ [SmallDatasetWarning] else out1)
          in
          (case DataLoader_init T train_ds (batch_size args) True True of
             Inl e \<Rightarrow> (Inl e, files, out2)
           | Inr train_loader \<Rightarrow>
               (case DataLoader_init T val_ds (batch_size args) False False of
                  Inl e \<Rightarrow> (Inl e, files, out2)
                | Inr val_loader \<Rightarrow>
                    let s0 = \<lparr>learner = new_learner T (lr args) (epochs args),
                              best_val_loss = PosInf,
                              patience_counter = 0,
                              checkpoints = files,
                              console = out2\<rparr>
                    in
                    (case epoch_loop T args train_loader val_loader [1..epochs args] s0 of
                       (Inl e, s) \<Rightarrow> (Inl e, checkpoints s, console s)
                     | (Inr u, s) \<Rightarrow>
                         (Inr (), checkpoints s,
                          console s @
                            [TrainingComplete (best_val_loss s),
                             ModelSavedTo (output_file args)])))))"

subsection \<open>Reading the printed lines\<close>

text \<open>
  The last epoch that a run reported and the last epoch after whose report it printed
  that it saved the model; 0 when there is none.
\<close>

fun scan_epochs :: "event list \<Rightarrow> int \<times> int \<Rightarrow> int \<times> int" where
  "scan_epochs [] acc = acc"
| "scan_epochs (EpochLine e n a v r # evs) (cur, best) = scan_epochs evs (e, best)"
| "scan_epochs (SavedBest v # evs) (cur, best) = scan_epochs evs (cur, cur)"
| "scan_epochs (x # evs) acc = scan_epochs evs acc"

definition last_epoch :: "event list \<Rightarrow> int" where
  "last_epoch evs = fst (scan_epochs evs (0, 0))"

definition best_epoch :: "event list \<Rightarrow> int" where
  "best_epoch evs = snd (scan_epochs evs (0, 0))"

definition stopped_early :: "event list \<Rightarrow> bool" where
  "stopped_early evs = list_ex (\<lambda>ev. case ev of EarlyStopping e p \<Rightarrow> True | _ \<Rightarrow> False) evs"

subsection \<open>Concrete inputs\<close>

text \<open>
  Two models of the library. In the first every generator draws the reversed range. In
  the second a generator is a number, the seed or else the entropy, and draws the range
  rotated by that number, so that generators built without a seed at different times
  draw different permutations. Then a frame of \<open>n\<close> rows of zeros with exactly the
  required columns, a frame of ones with its columns in another order and one more
  column, and file systems holding them.
\<close>

definition numpy_rev :: "(nat, unit) numpy" where
  "numpy_rev =
     \<lparr>default_rng = (\<lambda>entropy s. case s of
                        None \<Rightarrow> Inr ()
                      | Some k \<Rightarrow> if k < 0 then Inl ValueError else Inr ()),
      permutation = (\<lambda>g n. rev [0..<n])\<rparr>"

definition numpy_rotate :: "(nat, nat) numpy" where
  "numpy_rotate =
     \<lparr>default_rng = (\<lambda>entropy s. case s of
                        None \<Rightarrow> Inr entropy
                      | Some k \<Rightarrow> if k < 0 then Inl ValueError else Inr (nat k)),
      permutation = (\<lambda>g n. rotate g [0..<n])\<rparr>"

definition zero_frame :: "nat \<Rightarrow> dataframe" where
  "zero_frame n =
     \<lparr>columns = FEATURE_COLS @ TARGET_COLS,
      rows = replicate n (replicate 21 (Finite 0))\<rparr>"

definition ones_frame :: "nat \<Rightarrow> dataframe" where
  "ones_frame n =
     \<lparr>columns = ''episode'' # TARGET_COLS @ FEATURE_COLS,
      rows = replicate n (replicate 22 (Finite 1))\<rparr>"

definition zero_files :: "nat \<Rightarrow> filesystem" where
  "zero_files n = [''data/training_data.csv'' \<mapsto> zero_frame n]"

definition ones_files :: "nat \<Rightarrow> filesystem" where
  "ones_files n = [''other.csv'' \<mapsto> ones_frame n, ''data/training_data.csv'' \<mapsto> ones_frame n]"

definition zero_files_later :: "nat \<Rightarrow> filesystem" where
  \<comment> \<open>the same file system after an unrelated file has been written\<close>
  "zero_files_later n = (zero_files n)(''notes.csv'' \<mapsto> ones_frame 1)"

subsection \<open>Concrete models and checkpoints\<close>

definition two_rows :: "int list list" where
  "two_rows = [replicate 19 0, replicate 19 1]"

definition narrow_model :: "int SailingAI" where
  \<comment> \<open>a network whose first layer has 64 units instead of 128\<close>
  "narrow_model =
     \<lparr>net =
        [Linear (Linear_init (\<lambda>r c. 1) (\<lambda>r. 0) 19 64),
         ReLU,
         Linear (Linear_init (\<lambda>r c. 1) (\<lambda>r. 0) 64 64),
         ReLU,
         Linear (Linear_init (\<lambda>r c. 1) (\<lambda>r. 0) 64 32),
         ReLU,
         Linear (Linear_init (\<lambda>r c. 1) (\<lambda>r. 0) 32 2)]\<rparr>"

definition default_export_args :: export_args where
  "default_export_args =
     \<lparr>checkpoint = ''checkpoints/sailing_ai.pt'',
      output_path = ''../server/models/sailing_ai.onnx''\<rparr>"

definition narrow_world :: "int export_world" where
  "narrow_world =
     \<lparr>checkpoint_files = [''checkpoints/sailing_ai.pt'' \<mapsto> state_dict narrow_model],
      artifact_files = Map.empty,
      printed = []\<rparr>"

subsection \<open>Concrete runs\<close>

text \<open>
  A framework whose learner counts the optimizer steps; the loss of every training
  batch is 1 and the loss of every validation batch is the given value.
\<close>

definition counting_torch :: "pyfloat \<Rightarrow> (nat, nat) torch" where
  "counting_torch v =
     \<lparr>new_learner = (\<lambda>rate horizon. 0),
      random_order = (\<lambda>m xs. (rev xs, m)),
      train_batch = (\<lambda>m ds b. (Suc m, Finite 1)),
      scheduler_step = (\<lambda>m. m),
      eval_batch = (\<lambda>m ds b. v),
      get_last_lr = (\<lambda>m. Finite 0),
      model_state_dict = (\<lambda>m. m),
      sampler_rejects_empty = True\<rparr>"

definition small_args :: "int \<Rightarrow> int \<Rightarrow> train_args" where
  "small_args n p =
     \<lparr>data = ''data/training_data.csv'',
      output_file = ''checkpoints/sailing_ai.pt'',
      epochs = n,
      batch_size = 2,
      lr = round_binary64 (1 / 1000),
      patience = p\<rparr>"

definition wide_args :: "int \<Rightarrow> int \<Rightarrow> train_args" where
  \<comment> \<open>the default batch size, larger than the dataset of the runs below\<close>
  "wide_args n p = (small_args n p)\<lparr>batch_size := 256\<rparr>"

definition no_files :: "string \<rightharpoonup> nat" where
  "no_files = Map.empty"

definition run_files :: "pyfloat \<Rightarrow> int \<Rightarrow> int \<Rightarrow> string \<rightharpoonup> nat" where
  \<comment> \<open>the checkpoint files after a run on five rows\<close>
  "run_files v n p =
     fst (snd (train numpy_rev 0 (counting_torch v) (zero_files 5) (small_args n p) no_files))"

definition run_lines :: "pyfloat \<Rightarrow> int \<Rightarrow> int \<Rightarrow> event list" where
  \<comment> \<open>the lines that the run prints\<close>
  "run_lines v n p =
     snd (snd (train numpy_rev 0 (counting_torch v) (zero_files 5) (small_args n p) no_files))"

definition run_outcome :: "pyfloat \<Rightarrow> int \<Rightarrow> int \<Rightarrow> error + unit" where
  "run_outcome v n p =
     fst (train numpy_rev 0 (counting_torch v) (zero_files 5) (small_args n p) no_files)"

text \<open>
  The loaders of such a run with the default batch size, larger than the train view,
  and the state of the run before its first epoch.
\<close>

definition zero_dataset :: SailingDataset where
  "zero_dataset =
     \<lparr>features = replicate 5 (replicate 19 (Finite 0)),
      targets = replicate 5 (replicate 2 (Finite 0))\<rparr>"

definition wide_train_loader :: DataLoader where
  "wide_train_loader =
     \<lparr>loader_view = \<lparr>dataset = zero_dataset, indices = [4, 3, 2, 1]\<rparr>,
      loader_batch_size = 256, loader_shuffle = True, loader_drop_last = True\<rparr>"

definition wide_val_loader :: DataLoader where
  "wide_val_loader =
     \<lparr>loader_view = \<lparr>dataset = zero_dataset, indices = [0]\<rparr>,
      loader_batch_size = 256, loader_shuffle = False, loader_drop_last = False\<rparr>"

definition first_state :: "(nat, nat) run" where
  "first_state =
     \<lparr>learner = 0, best_val_loss = PosInf, patience_counter = 0,
      checkpoints = no_files,
      console = [UsingDevice, Samples 4 1, SmallDatasetWarning]\<rparr>"

definition stalled_state :: "(nat, nat) run" where
  \<comment> \<open>after a first epoch with validation loss 1\<close>
  "stalled_state =
     \<lparr>learner = 0, best_val_loss = Finite 1, patience_counter = 0,
      checkpoints = no_files(''checkpoints/sailing_ai.pt'' \<mapsto> 0),
      console = [UsingDevice, Samples 4 1, SmallDatasetWarning,
                 EpochLine 1 5 (Finite 0) (Finite 1) (Finite 0), SavedBest (Finite 1)]\<rparr>"

section \<open>Properties of the floats\<close>

lemma pow2_powi: "pow2 e = 2 powi e"
  by (simp add: pow2_def power_int_def inverse_eq_divide power_one_over)

lemma pow2_pos: "0 < pow2 e"
  by (simp add: pow2_powi)

lemma pow2_mono: "a \<le> b \<Longrightarrow> pow2 a \<le> pow2 b"
  by (simp add: pow2_powi power_int_increasing)

lemma pow2_less_imp: "pow2 a < pow2 b \<Longrightarrow> a < b"
  using pow2_mono [of b a] by (cases "a < b") auto

lemma pow2_diff: "pow2 (a - b) = pow2 a / pow2 b"
  by (simp add: pow2_powi power_int_diff)

lemma pow2_nat: "pow2 (int n) = 2 ^ n"
  by (simp add: pow2_def)

lemma bit_length_bounds:
  "0 < n \<Longrightarrow> 2 ^ (bit_length n - 1) \<le> n \<and> n < 2 ^ bit_length n"
proof (induction n rule: bit_length.induct)
  case (1 n)
  show ?case
  proof (cases "n div 2 \<le> 0")
    case True
    with "1.prems" have "n = 1"
      by linarith
    then show ?thesis
      by (simp add: bit_length.simps [of 1] bit_length.simps [of 0])
  next
    case False
    then have pos: "0 < n div 2"
      by simp
    have n0: "\<not> n \<le> 0"
      using "1.prems" by simp
    from "1.IH" [OF n0 pos]
    have lo: "2 ^ (bit_length (n div 2) - 1) \<le> n div 2"
      and hi: "n div 2 < 2 ^ bit_length (n div 2)"
      by simp_all
    have bl: "bit_length n = Suc (bit_length (n div 2))"
      using n0 by (simp add: bit_length.simps [of n])
    have blpos: "0 < bit_length (n div 2)"
      using pos by (simp add: bit_length.simps [of "n div 2"])
    have "(2 :: int) ^ bit_length (n div 2) = 2 * 2 ^ (bit_length (n div 2) - 1)"
      using blpos by (cases "bit_length (n div 2)") simp_all
    then have a: "(2 :: int) ^ bit_length (n div 2) \<le> n"
      using lo by linarith
    have b: "n < 2 * 2 ^ bit_length (n div 2)"
      using hi by linarith
    show ?thesis
      using a b by (simp add: bl)
  qed
qed

lemma ilog2_le:
  assumes "0 < x"
  shows "pow2 (ilog2 x) \<le> x"
proof -
  obtain p q where pq: "quotient_of x = (p, q)"
    by (cases "quotient_of x")
  have q: "0 < q"
    using pq quotient_of_denom_pos by blast
  have x: "x = of_int p / of_int q"
    using pq quotient_of_div by blast
  have p: "0 < p"
    using assms q x by (simp add: zero_less_divide_iff)
  let ?d = "int (bit_length p) - int (bit_length q)"
  have il: "ilog2 x = (if pow2 ?d \<le> x then ?d else ?d - 1)"
    by (simp add: ilog2_def pq Let_def)
  show ?thesis
  proof (cases "pow2 ?d \<le> x")
    case True
    then show ?thesis
      by (simp add: il)
  next
    case False
    have blp: "0 < bit_length p"
      using p by (simp add: bit_length.simps [of p])
    have "?d - 1 = int (bit_length p - 1) - int (bit_length q)"
      using blp by simp
    then have "pow2 (?d - 1) = 2 ^ (bit_length p - 1) / 2 ^ bit_length q"
      by (simp only: pow2_diff pow2_nat)
    also have "\<dots> \<le> of_int p / of_int q"
    proof -
      have "(2 :: rat) ^ (bit_length p - 1) \<le> of_int p"
        using bit_length_bounds [OF p]
        by (metis of_int_le_iff of_int_numeral of_int_power)
      moreover have "(of_int q :: rat) \<le> 2 ^ bit_length q"
        using bit_length_bounds [OF q]
        by (metis less_imp_le of_int_le_iff of_int_numeral of_int_power)
      moreover have "(0 :: rat) < of_int q"
        using q by simp
      moreover have "(0 :: rat) \<le> of_int p"
        using p by simp
      ultimately show ?thesis
        by (intro frac_le) simp_all
    qed
    finally have "pow2 (?d - 1) \<le> x"
      by (simp only: x)
    moreover have "ilog2 x = ?d - 1"
      using False by (simp only: il if_False)
    ultimately show ?thesis
      by (simp only:)
  qed
qed

lemma round_half_even_close: "\<bar>of_int (round_half_even z) - z\<bar> \<le> 1 / 2"
proof -
  have "of_int \<lfloor>z\<rfloor> \<le> z" and "z < of_int \<lfloor>z\<rfloor> + 1"
    by linarith+
  then show ?thesis
    by (auto simp add: round_half_even_def Let_def)
qed

lemma round_half_even_nonneg: "0 \<le> z \<Longrightarrow> 0 \<le> round_half_even z"
  by (auto simp add: round_half_even_def Let_def)

lemma round_half_even_pos: "1 \<le> z \<Longrightarrow> 1 \<le> round_half_even z"
proof -
  assume "1 \<le> z"
  then have "1 \<le> \<lfloor>z\<rfloor>"
    by simp
  then show ?thesis
    by (auto simp add: round_half_even_def Let_def)
qed

text \<open>The quantum of a value: the distance between the floats around it.\<close>

lemma quantum_le:
  assumes "x \<noteq> 0"
  shows "pow2 (max (ilog2 \<bar>x\<bar>) (- 1022) - 52) \<le> max \<bar>x\<bar> 1"
proof -
  have "pow2 (max (ilog2 \<bar>x\<bar>) (- 1022) - 52) \<le> pow2 (max (ilog2 \<bar>x\<bar>) (- 1022))"
    by (rule pow2_mono) simp
  also have "\<dots> \<le> max \<bar>x\<bar> 1"
  proof (cases "ilog2 \<bar>x\<bar> \<le> - 1022")
    case True
    then have "pow2 (max (ilog2 \<bar>x\<bar>) (- 1022)) = pow2 (- 1022)"
      by (simp add: max_def)
    also have "\<dots> \<le> pow2 0"
      by (rule pow2_mono) simp
    also have "pow2 0 = 1"
      by (simp add: pow2_def)
    finally show ?thesis
      by (rule order_trans) simp
  next
    case False
    then have "pow2 (max (ilog2 \<bar>x\<bar>) (- 1022)) = pow2 (ilog2 \<bar>x\<bar>)"
      by (simp add: max_def)
    then show ?thesis
      using ilog2_le [of "\<bar>x\<bar>"] assms by simp
  qed
  finally show ?thesis .
qed

lemma round_binary64_cases:
  assumes "x \<noteq> 0"
  shows "round_binary64 x =
           (if 1023 < max (ilog2 \<bar>x\<bar>) (- 1022)
               \<or> (max (ilog2 \<bar>x\<bar>) (- 1022) = 1023
                   \<and> 2 ^ 53 \<le> \<bar>round_half_even (x / pow2 (max (ilog2 \<bar>x\<bar>) (- 1022) - 52))\<bar>)
            then (if 0 < x then PosInf else NegInf)
            else Finite (of_int (round_half_even (x / pow2 (max (ilog2 \<bar>x\<bar>) (- 1022) - 52)))
                           * pow2 (max (ilog2 \<bar>x\<bar>) (- 1022) - 52)))"
proof -
  have a: "(1 :: int) - 1023 = - 1022" and b: "int 53 - 1 = 52"
    by simp_all
  show ?thesis
    unfolding round_binary64_def round_ieee_def Let_def a b using assms
    by (simp only: if_False)
qed

lemma round_binary64_Finite:
  assumes "x \<noteq> 0" and "round_binary64 x = Finite y"
  shows "y = of_int (round_half_even (x / pow2 (max (ilog2 \<bar>x\<bar>) (- 1022) - 52)))
               * pow2 (max (ilog2 \<bar>x\<bar>) (- 1022) - 52)"
proof -
  define E where "E = max (ilog2 \<bar>x\<bar>) (- 1022)"
  define M where "M = round_half_even (x / pow2 (E - 52))"
  have "round_binary64 x =
          (if 1023 < E \<or> (E = 1023 \<and> 2 ^ 53 \<le> \<bar>M\<bar>)
           then (if 0 < x then PosInf else NegInf)
           else Finite (of_int M * pow2 (E - 52)))"
    unfolding E_def M_def by (rule round_binary64_cases [OF assms(1)])
  with assms(2) have "(if 1023 < E \<or> (E = 1023 \<and> 2 ^ 53 \<le> \<bar>M\<bar>)
           then (if 0 < x then PosInf else NegInf)
           else Finite (of_int M * pow2 (E - 52))) = Finite y"
    by (simp only:)
  then have "y = of_int M * pow2 (E - 52)"
    by (simp split: if_splits)
  then show ?thesis
    unfolding E_def M_def .
qed

lemma round_binary64_finite:
  assumes "\<bar>x\<bar> < pow2 1023"
  shows "\<exists>y. round_binary64 x = Finite y"
proof (cases "x = 0")
  case True
  then show ?thesis
    by (simp add: round_binary64_def round_ieee_def)
next
  case False
  define E where "E = max (ilog2 \<bar>x\<bar>) (- 1022)"
  define M where "M = round_half_even (x / pow2 (E - 52))"
  have "pow2 (ilog2 \<bar>x\<bar>) \<le> \<bar>x\<bar>"
    using False by (intro ilog2_le) simp
  then have "pow2 (ilog2 \<bar>x\<bar>) < pow2 1023"
    using assms by (rule order.strict_trans1)
  then have "ilog2 \<bar>x\<bar> < 1023"
    by (rule pow2_less_imp)
  then have E: "E < 1023"
    by (simp add: E_def)
  have "round_binary64 x =
          (if 1023 < E \<or> (E = 1023 \<and> 2 ^ 53 \<le> \<bar>M\<bar>)
           then (if 0 < x then PosInf else NegInf)
           else Finite (of_int M * pow2 (E - 52)))"
    unfolding E_def M_def by (rule round_binary64_cases [OF False])
  then have "round_binary64 x = Finite (of_int M * pow2 (E - 52))"
    using E by simp
  then show ?thesis
    by blast
qed

lemma round_binary64_nonneg:
  assumes "round_binary64 x = Finite y" and "0 \<le> x"
  shows "0 \<le> y"
proof (cases "x = 0")
  case True
  then show ?thesis
    using assms by (simp add: round_binary64_def round_ieee_def)
next
  case False
  define Q where "Q = pow2 (max (ilog2 \<bar>x\<bar>) (- 1022) - 52)"
  have y: "y = of_int (round_half_even (x / Q)) * Q"
    unfolding Q_def by (rule round_binary64_Finite [OF False assms(1)])
  have qpos: "0 < Q"
    unfolding Q_def by (rule pow2_pos)
  then have "0 \<le> x / Q"
    using assms(2) by simp
  then have "0 \<le> round_half_even (x / Q)"
    by (rule round_half_even_nonneg)
  then show ?thesis
    using qpos by (simp add: y)
qed

lemma round_binary64_bound:
  assumes "round_binary64 x = Finite y"
  shows "\<bar>y\<bar> \<le> 2 * \<bar>x\<bar> + 1"
proof (cases "x = 0")
  case True
  then show ?thesis
    using assms by (simp add: round_binary64_def round_ieee_def)
next
  case False
  define Q where "Q = pow2 (max (ilog2 \<bar>x\<bar>) (- 1022) - 52)"
  define M where "M = round_half_even (x / Q)"
  have qpos: "0 < Q"
    unfolding Q_def by (rule pow2_pos)
  have y: "y = of_int M * Q"
    unfolding Q_def M_def by (rule round_binary64_Finite [OF False assms(1)])
  have "\<bar>of_int M - x / Q\<bar> \<le> 1 / 2"
    unfolding M_def by (rule round_half_even_close)
  then have "\<bar>of_int M - x / Q\<bar> * Q \<le> 1 / 2 * Q"
    using qpos by (intro mult_right_mono) simp_all
  moreover have "\<bar>of_int M - x / Q\<bar> * Q = \<bar>of_int M * Q - x\<bar>"
  proof -
    have "\<bar>of_int M - x / Q\<bar> * Q = \<bar>(of_int M - x / Q) * Q\<bar>"
      using qpos by (simp add: abs_mult)
    also have "(of_int M - x / Q) * Q = of_int M * Q - x"
      using qpos by (simp add: left_diff_distrib)
    finally show ?thesis .
  qed
  ultimately have d: "\<bar>y - x\<bar> \<le> Q / 2"
    by (simp add: y)
  have "Q \<le> max \<bar>x\<bar> 1"
    unfolding Q_def by (rule quantum_le [OF False])
  then have "Q \<le> \<bar>x\<bar> + 1"
    by linarith
  then show ?thesis
    using d by linarith
qed

lemma round_binary64_pos:
  assumes "round_binary64 x = Finite y" and "1 \<le> x"
  shows "0 < y"
proof -
  have x0: "x \<noteq> 0"
    using assms(2) by auto
  define Q where "Q = pow2 (max (ilog2 \<bar>x\<bar>) (- 1022) - 52)"
  have qpos: "0 < Q"
    unfolding Q_def by (rule pow2_pos)
  have y: "y = of_int (round_half_even (x / Q)) * Q"
    unfolding Q_def by (rule round_binary64_Finite [OF x0 assms(1)])
  have "Q \<le> max \<bar>x\<bar> 1"
    unfolding Q_def by (rule quantum_le [OF x0])
  then have "Q \<le> x"
    using assms(2) by linarith
  then have "1 \<le> x / Q"
    using qpos by (simp add: le_divide_eq)
  then have "1 \<le> round_half_even (x / Q)"
    by (rule round_half_even_pos)
  then have "(0 :: rat) < of_int (round_half_even (x / Q))"
    by simp
  then show ?thesis
    using qpos by (simp add: y)
qed

lemma pow2_1023_large: "2 ^ 66 \<le> pow2 1023"
  by (simp add: pow2_def)

section \<open>Properties of the split\<close>

lemma slice_upto_from: "slice_upto k xs @ slice_from k xs = xs"
  by (simp add: slice_upto_def slice_from_def)

lemma slice_upto_nonneg: "0 \<le> k \<Longrightarrow> slice_upto k xs = take (nat k) xs"
  by (simp add: slice_upto_def slice_bound_def min_def)

lemma slice_from_nonneg: "0 \<le> k \<Longrightarrow> slice_from k xs = drop (nat k) xs"
  by (simp add: slice_from_def slice_bound_def min_def)

lemma SailingDataset_init_frame:
  assumes "fs csv_path = Some df"
    and "set (FEATURE_COLS @ TARGET_COLS) \<subseteq> set (columns df)"
  shows "\<exists>ds. SailingDataset_init fs csv_path = Inr ds
           \<and> SailingDataset_len ds = length (rows df)"
  using assms
  by (simp add: SailingDataset_init_def read_csv_def select_values_def SailingDataset_len_def)

lemma load_and_split_Inr:
  assumes "SailingDataset_init fs csv_path = Inr ds"
    and "default_rng np entropy (Some seed) = Inr g"
    and "split_index (SailingDataset_len ds) val_fraction = Inr k"
  shows "load_and_split np entropy fs csv_path val_fraction seed =
           Inr (\<lparr>dataset = ds,
                  indices = slice_upto k (permutation np g (SailingDataset_len ds))\<rparr>,
                \<lparr>dataset = ds,
                  indices = slice_from k (permutation np g (SailingDataset_len ds))\<rparr>)"
  using assms by (simp add: load_and_split_def Let_def)

lemma split_index_default_1000:
  "split_index 1000 val_fraction_default = Inr 800"
  by code_simp

lemma split_index_default_5:
  "split_index 5 val_fraction_default = Inr 4"
  by code_simp

text \<open>
  C1. For a frame with all required columns, a generator that returns a permutation of
  \<open>[0, n)\<close> and a split index that \<open>int(...)\<close> can compute, \<open>load_and_split\<close> returns two
  views of the dataset whose index lists have no element in common and no repetition,
  cover \<open>[0, n)\<close>, and have lengths that sum to \<open>n\<close>, the length of the dataset.
\<close>

theorem load_and_split_partition:
  assumes "fs csv_path = Some df"
    and "set (FEATURE_COLS @ TARGET_COLS) \<subseteq> set (columns df)"
    and "default_rng np entropy (Some seed) = Inr g"
    and "mset (permutation np g (length (rows df))) = mset [0..<length (rows df)]"
    and "split_index (length (rows df)) val_fraction = Inr k"
  shows "\<exists>tr va. load_and_split np entropy fs csv_path val_fraction seed = Inr (tr, va)
           \<and> set (indices tr) \<inter> set (indices va) = {}
           \<and> distinct (indices tr @ indices va)
           \<and> set (indices tr) \<union> set (indices va) = {0..<length (rows df)}
           \<and> Subset_len tr + Subset_len va = length (rows df)
           \<and> SailingDataset_len (dataset tr) = length (rows df)
           \<and> dataset va = dataset tr"
proof -
  let ?n = "length (rows df)"
  let ?p = "permutation np g ?n"
  from assms(1,2) obtain ds where
    ds: "SailingDataset_init fs csv_path = Inr ds" and len: "SailingDataset_len ds = ?n"
    using SailingDataset_init_frame by blast
  let ?tr = "\<lparr>dataset = ds, indices = slice_upto k ?p\<rparr>"
  let ?va = "\<lparr>dataset = ds, indices = slice_from k ?p\<rparr>"
  have res: "load_and_split np entropy fs csv_path val_fraction seed = Inr (?tr, ?va)"
    using load_and_split_Inr [OF ds assms(3), of val_fraction k] assms(5) len by simp
  have dist: "distinct ?p"
    using assms(4) by (metis distinct_upt mset_eq_imp_distinct_iff)
  have setp: "set ?p = {0..<?n}"
    using assms(4) by (metis mset_eq_setD set_upt)
  have lenp: "length ?p = ?n"
    using assms(4) by (metis mset_eq_length length_upt diff_zero)
  have d2: "distinct (indices ?tr @ indices ?va)"
    using dist by (simp only: Subset.simps slice_upto_from)
  have s2: "set (indices ?tr) \<union> set (indices ?va) = {0..<?n}"
    using setp by (metis Subset.select_convs(2) set_append slice_upto_from)
  have l2: "Subset_len ?tr + Subset_len ?va = ?n"
    using lenp by (metis Subset.select_convs(2) Subset_len_def length_append slice_upto_from)
  have i2: "set (indices ?tr) \<inter> set (indices ?va) = {}"
    using d2 by simp
  show ?thesis
    using res d2 s2 l2 i2 len by (intro exI [of _ ?tr] exI [of _ ?va]) simp
qed

theorem load_and_split_partition_witness:
  "\<exists>tr va. load_and_split numpy_rev 0 (zero_files 5) ''data/training_data.csv''
             val_fraction_default seed_default = Inr (tr, va)
           \<and> set (indices tr) \<inter> set (indices va) = {}
           \<and> distinct (indices tr @ indices va)
           \<and> set (indices tr) \<union> set (indices va) = {0..<5}
           \<and> Subset_len tr + Subset_len va = 5
           \<and> SailingDataset_len (dataset tr) = 5
           \<and> dataset va = dataset tr"
proof -
  have h1: "zero_files 5 ''data/training_data.csv'' = Some (zero_frame 5)"
    by (simp add: zero_files_def)
  have h2: "set (FEATURE_COLS @ TARGET_COLS) \<subseteq> set (columns (zero_frame 5))"
    by (simp add: zero_frame_def)
  have h3: "default_rng numpy_rev 0 (Some seed_default) = Inr ()"
    by (simp add: numpy_rev_def seed_default_def)
  have n: "length (rows (zero_frame 5)) = 5"
    by (simp add: zero_frame_def)
  have h4: "mset (permutation numpy_rev () (length (rows (zero_frame 5))))
              = mset [0..<length (rows (zero_frame 5))]"
    by (simp add: numpy_rev_def)
  have h5: "split_index (length (rows (zero_frame 5))) val_fraction_default = Inr 4"
    by (simp only: n split_index_default_5)
  show ?thesis
    using load_and_split_partition
            [where fs = "zero_files 5" and csv_path = "''data/training_data.csv''"
               and df = "zero_frame 5" and np = numpy_rev and entropy = 0 and seed = seed_default
               and g = "()" and val_fraction = val_fraction_default and k = 4,
             OF h1 h2 h3 h4 h5]
    by (simp only: n)
qed

lemma view_indices_load_and_split:
  assumes "SailingDataset_init fs csv_path = Inr ds"
    and "default_rng np entropy (Some seed) = Inr g"
    and "split_index (SailingDataset_len ds) val_fraction = Inr k"
  shows "view_indices (load_and_split np entropy fs csv_path val_fraction seed) =
           Inr (slice_upto k (permutation np g (SailingDataset_len ds)),
                slice_from k (permutation np g (SailingDataset_len ds)))"
  by (simp add: load_and_split_Inr [OF assms] view_indices_def)

lemma val_fraction_default_value:
  "val_fraction_default = Finite (3602879701896397 / 2 ^ 54)"
  by code_simp

lemma round_binary64_1000: "round_binary64 1000 = Finite 1000"
  by code_simp

lemma round_binary64_one_minus_default:
  "round_binary64 (1 - 3602879701896397 / 2 ^ 54) = Finite (3602879701896397 / 2 ^ 52)"
  by code_simp

lemma round_binary64_product_default:
  "round_binary64 (1000 * (3602879701896397 / 2 ^ 52)) = Finite 800"
  by code_simp

lemma split_index_rounded:
  assumes "round_binary64 (of_nat n) = Finite a"
    and "round_binary64 (1 - v) = Finite y"
    and "round_binary64 (a * y) = Finite q"
    and "0 \<le> q"
  shows "split_index n (Finite v) = Inr \<lfloor>q\<rfloor>"
  using assms by (simp add: split_index_def split_float_def py_float_of_int_def fsub_def)

lemma split_product_finite:
  assumes "n < 2 ^ 63" and "0 \<le> v" and "v \<le> 1"
  shows "\<exists>a y q. round_binary64 (of_nat n) = Finite a
           \<and> round_binary64 (1 - v) = Finite y
           \<and> round_binary64 (a * y) = Finite q \<and> 0 \<le> q"
proof -
  have big: "(2 :: rat) ^ 66 \<le> pow2 1023"
    by (rule pow2_1023_large)
  have n: "(of_nat n :: rat) < 2 ^ 63"
    using assms(1) by (metis of_nat_less_iff of_nat_numeral of_nat_power)
  have "\<bar>of_nat n :: rat\<bar> < pow2 1023"
    using n big by simp
  then obtain a where a: "round_binary64 (of_nat n) = Finite a"
    using round_binary64_finite by blast
  have a0: "0 \<le> a"
    using round_binary64_nonneg [OF a] by simp
  have a1: "a \<le> 2 ^ 64 + 1"
    using round_binary64_bound [OF a] n by simp
  have "\<bar>1 - v\<bar> < pow2 1023"
    using assms(2,3) big by simp
  then obtain y where y: "round_binary64 (1 - v) = Finite y"
    using round_binary64_finite by blast
  have y0: "0 \<le> y"
    using round_binary64_nonneg [OF y] assms(3) by simp
  have y1: "y \<le> 3"
    using round_binary64_bound [OF y] assms(2,3) by simp
  have "a * y \<le> (2 ^ 64 + 1) * 3"
    using a0 a1 y0 y1 by (intro mult_mono) simp_all
  then have "\<bar>a * y\<bar> < pow2 1023"
    using a0 y0 big by simp
  then obtain q where q: "round_binary64 (a * y) = Finite q"
    using round_binary64_finite by blast
  have "0 \<le> q"
    using round_binary64_nonneg [OF q] a0 y0 by simp
  then show ?thesis
    using a y q by blast
qed

text \<open>
  C2, as the code has it. For a fraction \<open>v\<close> between 0 and 1 and fewer than \<open>2\<^sup>6\<^sup>3\<close> rows,
  the call returns, and the train view holds the first \<open>\<lfloor>q\<rfloor>\<close> indices of the seeded
  permutation and the validation view the remaining ones, where \<open>q\<close> is the product
  \<open>n * (1 - v)\<close> in double precision: \<open>n\<close> and \<open>1 - v\<close> are rounded to floats \<open>a\<close> and \<open>y\<close>, and
  \<open>q\<close> is \<open>a * y\<close> rounded. For 1000 rows and the float \<open>0.2\<close>, \<open>q\<close> is 800 and the views have
  800 and 200 indices.
\<close>

theorem load_and_split_prefix:
  assumes "fs csv_path = Some df"
    and "set (FEATURE_COLS @ TARGET_COLS) \<subseteq> set (columns df)"
    and "default_rng np entropy (Some seed) = Inr g"
    and "mset (permutation np g (length (rows df))) = mset [0..<length (rows df)]"
    and "length (rows df) < 2 ^ 63"
    and "0 \<le> v" and "v \<le> 1"
  shows "\<exists>a y q.
           round_binary64 (of_nat (length (rows df))) = Finite a
         \<and> round_binary64 (1 - v) = Finite y
         \<and> round_binary64 (a * y) = Finite q
         \<and> 0 \<le> q
         \<and> view_indices (load_and_split np entropy fs csv_path (Finite v) seed) =
              Inr (take (nat \<lfloor>q\<rfloor>) (permutation np g (length (rows df))),
                   drop (nat \<lfloor>q\<rfloor>) (permutation np g (length (rows df))))
         \<and> (length (rows df) = 1000 \<and> Finite v = val_fraction_default \<longrightarrow>
              q = 800
              \<and> length (take (nat \<lfloor>q\<rfloor>) (permutation np g (length (rows df)))) = 800
              \<and> length (drop (nat \<lfloor>q\<rfloor>) (permutation np g (length (rows df)))) = 200)"
proof -
  let ?n = "length (rows df)"
  let ?p = "permutation np g ?n"
  from assms(1,2) obtain ds where
    ds: "SailingDataset_init fs csv_path = Inr ds" and len: "SailingDataset_len ds = ?n"
    using SailingDataset_init_frame by blast
  have lenp: "length ?p = ?n"
    using assms(4) by (metis mset_eq_length length_upt diff_zero)
  from split_product_finite [OF assms(5,6,7)] obtain a y q where
    a: "round_binary64 (of_nat ?n) = Finite a" and
    y: "round_binary64 (1 - v) = Finite y" and
    q: "round_binary64 (a * y) = Finite q" and
    q0: "0 \<le> q"
    by blast
  have k: "split_index (SailingDataset_len ds) (Finite v) = Inr \<lfloor>q\<rfloor>"
    using split_index_rounded [OF a y q q0] len by simp
  have "0 \<le> \<lfloor>q\<rfloor>"
    using q0 by simp
  then have views: "view_indices (load_and_split np entropy fs csv_path (Finite v) seed) =
                      Inr (take (nat \<lfloor>q\<rfloor>) ?p, drop (nat \<lfloor>q\<rfloor>) ?p)"
    using view_indices_load_and_split [OF ds assms(3) k] len
    by (simp add: slice_upto_nonneg slice_from_nonneg)
  have at1000: "q = 800 \<and> length (take (nat \<lfloor>q\<rfloor>) ?p) = 800 \<and> length (drop (nat \<lfloor>q\<rfloor>) ?p) = 200"
    if n: "?n = 1000" and vf: "Finite v = val_fraction_default"
  proof -
    have v: "v = 3602879701896397 / 2 ^ 54"
      using vf by (simp add: val_fraction_default_value)
    have "a = 1000"
      using a n round_binary64_1000 by simp
    moreover have "y = 3602879701896397 / 2 ^ 52"
      using y round_binary64_one_minus_default by (simp only: v pyfloat.inject)
    ultimately have "q = 800"
      using q round_binary64_product_default by (simp only: pyfloat.inject)
    then show ?thesis
      using lenp n by simp
  qed
  show ?thesis
    using a y q q0 views at1000 by blast
qed

theorem load_and_split_prefix_witness:
  "\<exists>a y q.
     round_binary64 (of_nat (length (rows (zero_frame 1000)))) = Finite a
   \<and> round_binary64 (1 - 3602879701896397 / 2 ^ 54) = Finite y
   \<and> round_binary64 (a * y) = Finite q
   \<and> 0 \<le> q
   \<and> view_indices (load_and_split numpy_rev 0 (zero_files 1000) ''data/training_data.csv''
        (Finite (3602879701896397 / 2 ^ 54)) seed_default) =
        Inr (take (nat \<lfloor>q\<rfloor>) (permutation numpy_rev () (length (rows (zero_frame 1000)))),
             drop (nat \<lfloor>q\<rfloor>) (permutation numpy_rev () (length (rows (zero_frame 1000)))))
   \<and> q = 800
   \<and> length (take (nat \<lfloor>q\<rfloor>) (permutation numpy_rev () (length (rows (zero_frame 1000))))) = 800
   \<and> length (drop (nat \<lfloor>q\<rfloor>) (permutation numpy_rev () (length (rows (zero_frame 1000))))) = 200"
proof -
  have h1: "zero_files 1000 ''data/training_data.csv'' = Some (zero_frame 1000)"
    by (simp add: zero_files_def)
  have h2: "set (FEATURE_COLS @ TARGET_COLS) \<subseteq> set (columns (zero_frame 1000))"
    by (simp add: zero_frame_def)
  have h3: "default_rng numpy_rev 0 (Some seed_default) = Inr ()"
    by (simp add: numpy_rev_def seed_default_def)
  have n: "length (rows (zero_frame 1000)) = 1000"
    by (simp add: zero_frame_def)
  have h4: "mset (permutation numpy_rev () (length (rows (zero_frame 1000))))
              = mset [0..<length (rows (zero_frame 1000))]"
    by (simp add: numpy_rev_def)
  have h5: "length (rows (zero_frame 1000)) < 2 ^ 63"
    by (simp only: n) simp
  have h6: "(0 :: rat) \<le> 3602879701896397 / 2 ^ 54"
    by simp
  have h7: "(3602879701896397 / 2 ^ 54 :: rat) \<le> 1"
    by simp
  have vf: "Finite (3602879701896397 / 2 ^ 54) = val_fraction_default"
    by (simp only: val_fraction_default_value)
  from load_and_split_prefix
      [where fs = "zero_files 1000" and csv_path = "''data/training_data.csv''"
         and df = "zero_frame 1000" and np = numpy_rev and entropy = 0
         and seed = seed_default and g = "()" and v = "3602879701896397 / 2 ^ 54",
       OF h1 h2 h3 h4 h5 h6 h7]
  show ?thesis
    using n vf by blast
qed

text \<open>
  C2, as the claim has it, fails inside the range of a fraction. With five rows and
  \<open>val_fraction = 0.8\<close> the float \<open>1 - 0.8\<close> is just below \<open>0.2\<close>, the float product is
  \<open>0.9999999999999998\<close> and \<open>int\<close> gives 0: the train view is empty and the validation view
  holds all five indices, while \<open>\<lfloor>5 * (1 - 0.8)\<rfloor> = 1\<close>.
\<close>

theorem load_and_split_prefix_counterexample:
  "view_indices (load_and_split numpy_rev 0 (zero_files 5) ''data/training_data.csv''
       (round_binary64 (8 / 10)) seed_default) = Inr ([], [4, 3, 2, 1, 0])
   \<and> take (nat \<lfloor>5 * (1 - 8 / 10) :: rat\<rfloor>) (permutation numpy_rev () 5) = [4]
   \<and> view_indices (load_and_split numpy_rev 0 (zero_files 5) ''data/training_data.csv''
       (round_binary64 (8 / 10)) seed_default) \<noteq>
     Inr (take (nat \<lfloor>5 * (1 - 8 / 10) :: rat\<rfloor>) (permutation numpy_rev () 5),
          drop (nat \<lfloor>5 * (1 - 8 / 10) :: rat\<rfloor>) (permutation numpy_rev () 5))"
proof -
  have a: "view_indices (load_and_split numpy_rev 0 (zero_files 5) ''data/training_data.csv''
       (round_binary64 (8 / 10)) seed_default) = Inr ([], [4, 3, 2, 1, 0])"
    by code_simp
  have b: "take (nat \<lfloor>5 * (1 - 8 / 10) :: rat\<rfloor>) (permutation numpy_rev () 5) = [4]"
    by code_simp
  show ?thesis
    unfolding a b by simp
qed

text \<open>
  C3. The generator of a call is built from the seed, not from the entropy of the
  operating system, and the call reads nothing but the file at its path. So two calls
  with the same path, fraction and seed return the same views, whatever the entropy is
  at each call and whatever else has changed in the file system, as long as the file is
  the same and the library keeps its promise that a generator built from a seed does not
  depend on the entropy.
\<close>

theorem load_and_split_deterministic:
  assumes "fs1 csv_path = fs2 csv_path"
    and "default_rng np entropy1 (Some seed) = default_rng np entropy2 (Some seed)"
  shows "load_and_split np entropy1 fs1 csv_path val_fraction seed =
         load_and_split np entropy2 fs2 csv_path val_fraction seed"
proof -
  have "SailingDataset_init fs1 csv_path = SailingDataset_init fs2 csv_path"
    using assms(1) by (simp add: SailingDataset_init_def read_csv_def)
  then show ?thesis
    unfolding load_and_split_def assms(2) by (simp only:)
qed

theorem load_and_split_deterministic_witness:
  "load_and_split numpy_rotate 7 (zero_files 5) ''data/training_data.csv''
       val_fraction_default seed_default =
   load_and_split numpy_rotate 11 (zero_files_later 5) ''data/training_data.csv''
       val_fraction_default seed_default
   \<and> view_indices (load_and_split numpy_rotate 7 (zero_files 5) ''data/training_data.csv''
       val_fraction_default seed_default) = Inr ([2, 3, 4, 0], [1])
   \<and> default_rng numpy_rotate 7 None \<noteq> default_rng numpy_rotate 11 None"
proof -
  have h1: "zero_files 5 ''data/training_data.csv'' = zero_files_later 5 ''data/training_data.csv''"
    by (simp add: zero_files_later_def)
  have h2: "default_rng numpy_rotate 7 (Some seed_default) =
            default_rng numpy_rotate 11 (Some seed_default)"
    by (simp add: numpy_rotate_def)
  have v: "view_indices (load_and_split numpy_rotate 7 (zero_files 5) ''data/training_data.csv''
       val_fraction_default seed_default) = Inr ([2, 3, 4, 0], [1])"
    by code_simp
  have u: "default_rng numpy_rotate 7 None \<noteq> default_rng numpy_rotate 11 None"
    by (simp add: numpy_rotate_def)
  show ?thesis
    using load_and_split_deterministic
            [where ?fs1.0 = "zero_files 5" and ?fs2.0 = "zero_files_later 5"
               and csv_path = "''data/training_data.csv''" and np = numpy_rotate
               and ?entropy1.0 = 7 and ?entropy2.0 = 11
               and val_fraction = val_fraction_default and seed = seed_default, OF h1 h2] v u
    by simp
qed

text \<open>
  C10. The index lists depend on the number of rows, the seed and the fraction only:
  two frames with the required columns and equally many rows, whatever their values,
  their other columns and their paths, are split into the same index lists (or make the
  call raise the same exception).
\<close>

theorem load_and_split_indices_row_count:
  assumes "fs1 path1 = Some df1" and "fs2 path2 = Some df2"
    and "set (FEATURE_COLS @ TARGET_COLS) \<subseteq> set (columns df1)"
    and "set (FEATURE_COLS @ TARGET_COLS) \<subseteq> set (columns df2)"
    and "length (rows df1) = length (rows df2)"
  shows "view_indices (load_and_split np entropy fs1 path1 val_fraction seed) =
         view_indices (load_and_split np entropy fs2 path2 val_fraction seed)"
proof -
  from assms(1,3) obtain ds1 where
    ds1: "SailingDataset_init fs1 path1 = Inr ds1"
    and len1: "SailingDataset_len ds1 = length (rows df1)"
    using SailingDataset_init_frame by blast
  from assms(2,4) obtain ds2 where
    ds2: "SailingDataset_init fs2 path2 = Inr ds2"
    and len2: "SailingDataset_len ds2 = length (rows df2)"
    using SailingDataset_init_frame by blast
  show ?thesis
    using ds1 ds2 len1 len2 assms(5)
    by (simp add: load_and_split_def view_indices_def Let_def split: sum.splits)
qed

theorem load_and_split_indices_row_count_witness:
  "view_indices (load_and_split numpy_rev 0 (zero_files 5) ''data/training_data.csv''
       val_fraction_default seed_default) =
   view_indices (load_and_split numpy_rev 0 (ones_files 5) ''other.csv''
       val_fraction_default seed_default)
   \<and> view_indices (load_and_split numpy_rev 0 (ones_files 5) ''other.csv''
       val_fraction_default seed_default) = Inr ([4, 3, 2, 1], [0])"
proof -
  have h1: "zero_files 5 ''data/training_data.csv'' = Some (zero_frame 5)"
    by (simp add: zero_files_def)
  have h2: "ones_files 5 ''other.csv'' = Some (ones_frame 5)"
    by (simp add: ones_files_def)
  have h3: "set (FEATURE_COLS @ TARGET_COLS) \<subseteq> set (columns (zero_frame 5))"
    by (simp add: zero_frame_def)
  have h4: "set (FEATURE_COLS @ TARGET_COLS) \<subseteq> set (columns (ones_frame 5))"
    by (auto simp add: ones_frame_def)
  have h5: "length (rows (zero_frame 5)) = length (rows (ones_frame 5))"
    by (simp add: zero_frame_def ones_frame_def)
  have v: "view_indices (load_and_split numpy_rev 0 (ones_files 5) ''other.csv''
       val_fraction_default seed_default) = Inr ([4, 3, 2, 1], [0])"
    by code_simp
  show ?thesis
    using load_and_split_indices_row_count
            [where ?fs1.0 = "zero_files 5" and ?fs2.0 = "ones_files 5"
               and ?path1.0 = "''data/training_data.csv''" and ?path2.0 = "''other.csv''"
               and ?df1.0 = "zero_frame 5" and ?df2.0 = "ones_frame 5"
               and np = numpy_rev and entropy = 0
               and val_fraction = val_fraction_default and seed = seed_default,
             OF h1 h2 h3 h4 h5] v
    by simp
qed

section \<open>Properties of the model\<close>

lemma INPUT_DIM_19: "INPUT_DIM = 19"
  by (simp add: INPUT_DIM_def FEATURE_COLS_def)

lemma OUTPUT_DIM_2: "OUTPUT_DIM = 2"
  by (simp add: OUTPUT_DIM_def TARGET_COLS_def)

lemma map2_times_nth:
  fixes r :: "'a::times list"
  assumes "length r = n"
  shows "map2 (*) r (map g [0..<n]) = map (\<lambda>c. r ! c * g c) [0..<n]"
proof -
  have "map2 (*) (map ((!) r) [0..<n]) (map g [0..<n]) = map (\<lambda>c. r ! c * g c) [0..<n]"
    by (rule map2_map_map)
  moreover have "map ((!) r) [0..<n] = r"
    using assms map_nth [of r] by simp
  ultimately show ?thesis
    by simp
qed

lemma Linear_forward_init:
  fixes x :: "'a::{zero,plus,times} list list"
  assumes "\<forall>r\<in>set x. length r = n_in"
  shows "Linear_forward (Linear_init w b n_in n_out) x =
           Inr (map (\<lambda>r. map (\<lambda>j. foldl (+) 0 (map (\<lambda>c. r ! c * w j c) [0..<n_in]) + b j)
                            [0..<n_out]) x)"
proof -
  have row: "map2 (+) (map (dot r) (map (\<lambda>j. map (w j) [0..<n_in]) [0..<n_out])) (map b [0..<n_out]) =
             map (\<lambda>j. foldl (+) 0 (map (\<lambda>c. r ! c * w j c) [0..<n_in]) + b j) [0..<n_out]"
    if "length r = n_in" for r :: "'a list"
  proof -
    have "map (dot r) (map (\<lambda>j. map (w j) [0..<n_in]) [0..<n_out]) =
          map (\<lambda>j. foldl (+) 0 (map (\<lambda>c. r ! c * w j c) [0..<n_in])) [0..<n_out]"
      using map2_times_nth [OF that] by (simp add: dot_def)
    then show ?thesis
      by (simp only: map2_map_map)
  qed
  have "affine (weight (Linear_init w b n_in n_out)) (bias (Linear_init w b n_in n_out)) x =
        map (\<lambda>r. map (\<lambda>j. foldl (+) 0 (map (\<lambda>c. r ! c * w j c) [0..<n_in]) + b j)
                            [0..<n_out]) x"
    unfolding affine_def Linear_init_def using assms row by (auto intro!: map_cong)
  moreover have "list_all (\<lambda>r. length r = in_features (Linear_init w b n_in n_out)) x"
    using assms by (simp add: Linear_init_def list_all_iff)
  ultimately show ?thesis
    by (simp add: Linear_forward_def)
qed

text \<open>
  C8. The network built by \<open>SailingAI()\<close>, with any parameter values \<open>w\<close> and \<open>b\<close>, maps a
  batch of \<open>B\<close> rows of 19 values to a batch of \<open>B\<close> rows of 2 values without raising. The
  result is given here without the constants of the model: an affine layer takes a row
  \<open>r\<close> to the values \<open>(r\<^sub>0 * w j 0 + ... + r\<^sub>n\<^sub>-\<^sub>1 * w j (n - 1)) + b j\<close>, one for each unit
  \<open>j\<close>; the rectifier takes each value \<open>v\<close> to \<open>max 0 v\<close>; the layers have 128, 64, 32 and 2
  units, with a rectifier after each of the first three and none after the last.
\<close>

theorem SailingAI_forward_shape:
  fixes x :: "'a::{zero,plus,times,ord} list list"
  assumes "length x = B" and "\<forall>r\<in>set x. length r = 19" and "1 \<le> B"
  shows "let lin = (\<lambda>k n_in n_out.
                     map (\<lambda>r. map (\<lambda>j. foldl (+) 0 (map (\<lambda>c. r ! c * w k j c) [0..<n_in]) + b k j)
                                  [0..<n_out]));
             relu = map (map (max 0));
             y = lin 6 32 2 (relu (lin 4 64 32 (relu (lin 2 128 64 (relu (lin 0 19 128 x))))))
         in SailingAI_forward (SailingAI_init w b INPUT_DIM OUTPUT_DIM) x = Inr y
            \<and> length y = B \<and> (\<forall>r\<in>set y. length r = 2)
            \<and> layer_widths (net (SailingAI_init w b INPUT_DIM OUTPUT_DIM)) =
                  [(19, 128), (128, 64), (64, 32), (32, 2)]"
proof -
  define lin where "lin = (\<lambda>k n_in n_out.
                     map (\<lambda>r. map (\<lambda>j. foldl (+) 0 (map (\<lambda>c. r ! c * w k j c) [0..<n_in]) + b k j)
                                  [0..<n_out]))"
  define relu :: "'a list list \<Rightarrow> 'a list list" where "relu = map (map (max 0))"
  define a1 where "a1 = relu (lin 0 19 128 x)"
  define a2 where "a2 = relu (lin 2 128 64 a1)"
  define a3 where "a3 = relu (lin 4 64 32 a2)"
  define y where "y = lin 6 32 2 a3"
  have rows_lin: "\<forall>r\<in>set (lin k n_in n_out z). length r = n_out" for k n_in n_out z
    by (simp add: lin_def)
  have rows_relu: "\<forall>r\<in>set (relu z). length r = n" if "\<forall>r\<in>set z. length r = n" for z n
    using that by (simp add: relu_def)
  have relu_eq: "ReLU_forward z = relu z" for z
    by (simp add: ReLU_forward_def relu_def)
  have lin_eq: "Linear_forward (Linear_init (w k) (b k) n_in n_out) z = Inr (lin k n_in n_out z)"
    if "\<forall>r\<in>set z. length r = n_in" for k n_in n_out z
    using Linear_forward_init [OF that] by (simp add: lin_def)
  have r1: "\<forall>r\<in>set a1. length r = 128"
    unfolding a1_def by (rule rows_relu) (rule rows_lin)
  have r2: "\<forall>r\<in>set a2. length r = 64"
    unfolding a2_def by (rule rows_relu) (rule rows_lin)
  have r3: "\<forall>r\<in>set a3. length r = 32"
    unfolding a3_def by (rule rows_relu) (rule rows_lin)
  have fwd: "SailingAI_forward (SailingAI_init w b INPUT_DIM OUTPUT_DIM) x = Inr y"
    by (simp add: SailingAI_forward_def SailingAI_init_def INPUT_DIM_19 OUTPUT_DIM_2
          lin_eq [OF assms(2)] lin_eq [OF r1] lin_eq [OF r2] lin_eq [OF r3] relu_eq
          a1_def [symmetric] a2_def [symmetric] a3_def [symmetric] y_def [symmetric])
  have leny: "length y = B"
    using assms(1) by (simp add: y_def a3_def a2_def a1_def lin_def relu_def)
  have rowsy: "\<forall>r\<in>set y. length r = 2"
    unfolding y_def by (rule rows_lin)
  have widths: "layer_widths (net (SailingAI_init w b INPUT_DIM OUTPUT_DIM)) =
                  [(19, 128), (128, 64), (64, 32), (32, 2)]"
    by (simp add: SailingAI_init_def INPUT_DIM_19 OUTPUT_DIM_2 Linear_init_def)
  show ?thesis
    using fwd leny rowsy widths
    unfolding Let_def y_def a3_def a2_def a1_def lin_def relu_def by simp
qed

theorem SailingAI_forward_shape_witness:
  "let lin = (\<lambda>k n_in n_out.
                     map (\<lambda>r. map (\<lambda>j. foldl (+) 0 (map (\<lambda>c. r ! c * (1 :: int)) [0..<n_in]) + 0)
                                  [0..<n_out]));
             relu = map (map (max 0));
             y = lin (6 :: nat) 32 2 (relu (lin 4 64 32 (relu (lin 2 128 64 (relu (lin 0 19 128 two_rows))))))
         in SailingAI_forward (SailingAI_init (\<lambda>k r c. 1) (\<lambda>k r. 0) INPUT_DIM OUTPUT_DIM) two_rows = Inr y
            \<and> length y = 2 \<and> (\<forall>r\<in>set y. length r = 2)
            \<and> layer_widths (net (SailingAI_init (\<lambda>k r c. 1 :: int) (\<lambda>k r. 0) INPUT_DIM OUTPUT_DIM)) =
                  [(19, 128), (128, 64), (64, 32), (32, 2)]"
proof -
  have h1: "length two_rows = 2"
    by (simp add: two_rows_def)
  have h2: "\<forall>r\<in>set two_rows. length r = 19"
    by (simp add: two_rows_def)
  have h3: "(1 :: nat) \<le> 2"
    by simp
  show ?thesis
    using SailingAI_forward_shape [where x = two_rows and B = 2
            and w = "\<lambda>k r c. 1 :: int" and b = "\<lambda>k r. 0", OF h1 h2 h3] .
qed

section \<open>Properties of the exporter\<close>

lemma load_state_dict_mismatch:
  assumes "\<not> checkpoint_matches m sd"
  shows "load_state_dict m sd = Inl RuntimeError"
proof -
  let ?e = "parameter_shapes m"
  from assms consider
      (shape) "\<not> list_all (\<lambda>(k, s). case map_of sd k of None \<Rightarrow> False | Some t \<Rightarrow> shape t = s) ?e"
    | (name) "\<not> list_all (\<lambda>k. k \<in> set (map fst ?e)) (map fst sd)"
    by (auto simp add: checkpoint_matches_def)
  then show ?thesis
  proof cases
    case shape
    then obtain k s where ks: "(k, s) \<in> set ?e"
      and bad: "\<not> (case map_of sd k of None \<Rightarrow> False | Some t \<Rightarrow> shape t = s)"
      by (auto simp add: list_all_iff)
    show ?thesis
    proof (cases "map_of sd k")
      case None
      then have "k \<in> set (filter (\<lambda>k. map_of sd k = None) (map fst ?e))"
        using ks by force
      then have "filter (\<lambda>k. map_of sd k = None) (map fst ?e) \<noteq> []"
        by (metis empty_iff empty_set)
      then show ?thesis
        by (simp add: load_state_dict_def Let_def)
    next
      case (Some t)
      then have "(k, s) \<in> set (filter (\<lambda>(k, s). case map_of sd k of None \<Rightarrow> False
                                             | Some t \<Rightarrow> shape t \<noteq> s) ?e)"
        using ks bad by simp
      then have "filter (\<lambda>(k, s). case map_of sd k of None \<Rightarrow> False
                                 | Some t \<Rightarrow> shape t \<noteq> s) ?e \<noteq> []"
        by (metis empty_iff empty_set)
      then show ?thesis
        by (simp add: load_state_dict_def Let_def)
    qed
  next
    case name
    then obtain k where "k \<in> set (map fst sd)" and "k \<notin> set (map fst ?e)"
      by (auto simp add: list_all_iff)
    then have "k \<in> set (filter (\<lambda>k. k \<notin> set (map fst ?e)) (map fst sd))"
      by simp
    then have "filter (\<lambda>k. k \<notin> set (map fst ?e)) (map fst sd) \<noteq> []"
      by (metis empty_iff empty_set)
    then show ?thesis
      by (simp add: load_state_dict_def Let_def)
  qed
qed

text \<open>
  C9. When the checkpoint at \<open>args.checkpoint\<close> does not match the freshly built model in
  its parameter names or shapes, \<open>export\<close> raises the load error and leaves every file
  and the printed output as they were: no artifact is written.
\<close>

theorem export_mismatch_writes_nothing:
  assumes "checkpoint_files world (checkpoint args) = Some sd"
    and "\<not> checkpoint_matches (SailingAI_init w0 b0 INPUT_DIM OUTPUT_DIM) sd"
  shows "export w0 b0 randn args world = (Inl RuntimeError, world)"
  using assms(1) load_state_dict_mismatch [OF assms(2)]
  by (simp add: export_def torch_load_def)

theorem export_mismatch_writes_nothing_witness:
  "export (\<lambda>k r c. 1) (\<lambda>k r. 0) (\<lambda>c. 0) default_export_args narrow_world =
     (Inl RuntimeError, narrow_world)
   \<and> artifact_files narrow_world (output_path default_export_args) = None"
proof -
  have h1: "checkpoint_files narrow_world (checkpoint default_export_args) =
              Some (state_dict narrow_model)"
    by (simp add: narrow_world_def default_export_args_def)
  have h2: "\<not> checkpoint_matches (SailingAI_init (\<lambda>k r c. 1) (\<lambda>k r. 0) INPUT_DIM OUTPUT_DIM)
                 (state_dict narrow_model)"
    by code_simp
  have h3: "artifact_files narrow_world (output_path default_export_args) = None"
    by (simp add: narrow_world_def)
  show ?thesis
    using export_mismatch_writes_nothing
            [where world = narrow_world and args = default_export_args
               and sd = "state_dict narrow_model" and ?w0.0 = "\<lambda>k r c. 1"
               and ?b0.0 = "\<lambda>k r. 0" and randn = "\<lambda>c. 0", OF h1 h2] h3
    by simp
qed

section \<open>Properties of the trainer\<close>

subsection \<open>Averages\<close>


lemma py_float_of_int_pos:
  assumes "1 \<le> k"
  shows "py_float_of_int k = Inl OverflowError
       \<or> (\<exists>d. 0 < d \<and> py_float_of_int k = Inr (Finite d))"
proof (cases "round_binary64 (of_int k)")
  case (Finite d)
  have "(1 :: rat) \<le> of_int k"
    using assms by simp
  then have "0 < d"
    using round_binary64_pos [OF Finite] by simp
  then show ?thesis
    using Finite by (simp add: py_float_of_int_def)
qed (simp_all add: py_float_of_int_def)

lemma py_float_of_int_small:
  assumes "1 \<le> k" and "k < 2 ^ 63"
  shows "\<exists>d. 0 < d \<and> py_float_of_int k = Inr (Finite d)"
proof -
  have "(of_int k :: rat) < 2 ^ 63"
    using assms(2) by (metis of_int_less_iff of_int_numeral of_int_power)
  moreover have "(0 :: rat) \<le> of_int k"
    using assms(1) by simp
  ultimately have "\<bar>of_int k :: rat\<bar> < pow2 1023"
    using pow2_1023_large by simp
  then obtain d where "round_binary64 (of_int k) = Finite d"
    using round_binary64_finite by blast
  then have "py_float_of_int k = Inr (Finite d)"
    by (simp add: py_float_of_int_def)
  then show ?thesis
    using py_float_of_int_pos [OF assms(1)] by auto
qed

lemma average_no_zero_division: "average loss batches \<noteq> Inl ZeroDivisionError"
proof -
  have "1 \<le> max batches 1"
    by simp
  from py_float_of_int_pos [OF this] show ?thesis
    by (auto simp add: average_def py_truediv_def)
qed

lemma average_small:
  assumes "batches < 2 ^ 63"
  shows "\<exists>d. 0 < d \<and> average loss batches = Inr (fdiv loss (Finite d))"
proof -
  have "1 \<le> max batches 1" and "max batches 1 < 2 ^ 63"
    using assms by simp_all
  from py_float_of_int_small [OF this] show ?thesis
    by (auto simp add: average_def py_truediv_def)
qed

lemma average_zero_batches: "average (Finite 0) 0 = Inr (Finite 0)"
  by code_simp

subsection \<open>The passes of an epoch\<close>

lemma train_loop_count:
  "train_loop T ds bs (m, l, c) = (m', l', c') \<Longrightarrow> c' = c + int (length bs)"
proof (induction bs arbitrary: m l c)
  case Nil
  then show ?case by simp
next
  case (Cons b bs)
  obtain m1 l1 where step: "train_batch T m ds b = (m1, l1)"
    by (cases "train_batch T m ds b")
  with Cons.prems have "train_loop T ds bs (m1, fadd l l1, c + 1) = (m', l', c')"
    by simp
  from Cons.IH [OF this] show ?case
    by simp
qed

lemma val_loop_count:
  "val_loop T ds m bs (l, c) = (l', c') \<Longrightarrow> c' = c + int (length bs)"
proof (induction bs arbitrary: l c)
  case Nil
  then show ?case by simp
next
  case (Cons b bs)
  then have "val_loop T ds m bs (fadd l (eval_batch T m ds b), c + 1) = (l', c')"
    by simp
  from Cons.IH [OF this] show ?case
    by simp
qed

lemma length_batches_of:
  "length (batches_of bs d xs) =
     (if d then length xs div bs else (length xs + bs - 1) div bs)"
  by (simp add: batches_of_def)

lemma batches_of_short: "length xs < bs \<Longrightarrow> batches_of bs True xs = []"
  by (simp add: batches_of_def)

lemma length_batches_of_le:
  assumes "0 < bs"
  shows "length (batches_of bs d xs) \<le> length xs"
proof (cases d)
  case True
  then show ?thesis
    by (simp add: length_batches_of div_le_dividend)
next
  case False
  show ?thesis
  proof (cases "length xs = 0")
    case True
    then show ?thesis
      using assms False by (simp add: length_batches_of)
  next
    case nonempty: False
    have "length xs + bs - 1 \<le> length xs * bs"
    proof -
      obtain n where n: "length xs = Suc n"
        using nonempty by (cases "length xs") simp_all
      obtain b where b: "bs = Suc b"
        using assms by (cases bs) simp_all
      show ?thesis
        by (simp add: n b)
    qed
    then have "(length xs + bs - 1) div bs \<le> (length xs * bs) div bs"
      by (rule div_le_mono)
    then show ?thesis
      using assms False by (simp add: length_batches_of)
  qed
qed

lemma epoch_passes_train_empty:
  assumes "fst (loader_batches T train_loader m) = []"
    and "epoch_passes T train_loader val_loader m = (m', (train_loss, train_batches), vs)"
  shows "train_loss = Finite 0 \<and> train_batches = 0"
proof -
  obtain m1 where "loader_batches T train_loader m = ([], m1)"
    using assms(1) by (cases "loader_batches T train_loader m") simp
  then show ?thesis
    using assms(2) by (simp add: epoch_passes_def Let_def split: prod.splits)
qed

lemma epoch_passes_val_count:
  assumes "\<not> loader_shuffle val_loader"
    and "epoch_passes T train_loader val_loader m = (m', ts, (val_loss, val_batches))"
  shows "val_batches =
           int (length (batches_of (loader_batch_size val_loader) (loader_drop_last val_loader)
                  (indices (loader_view val_loader))))"
    and "indices (loader_view val_loader) = [] \<longrightarrow> val_loss = Finite 0 \<and> val_batches = 0"
proof -
  let ?bs = "batches_of (loader_batch_size val_loader) (loader_drop_last val_loader)
               (indices (loader_view val_loader))"
  have lb: "loader_batches T val_loader m3 = (?bs, m3)" for m3
    using assms(1) by (simp add: loader_batches_def)
  from assms(2) obtain m4 where
    vl: "val_loop T (dataset (loader_view val_loader)) m4 ?bs (Finite 0, 0) = (val_loss, val_batches)"
    by (auto simp add: epoch_passes_def Let_def lb split: prod.splits)
  from val_loop_count [OF vl] show "val_batches = int (length ?bs)"
    by simp
  show "indices (loader_view val_loader) = [] \<longrightarrow> val_loss = Finite 0 \<and> val_batches = 0"
  proof
    assume "indices (loader_view val_loader) = []"
    moreover have "(b - Suc 0) div b = 0" for b :: nat
      by (cases b) simp_all
    ultimately have "?bs = []"
      by (simp add: batches_of_def)
    then show "val_loss = Finite 0 \<and> val_batches = 0"
      using vl by simp
  qed
qed

subsection \<open>One epoch\<close>

lemma run_epoch_Inr:
  assumes "run_epoch T args train_loader val_loader epoch s = Inr (s', stop)"
  shows "\<exists>m train_loss train_batches val_loss val_batches avg_train avg_val.
           epoch_passes T train_loader val_loader (learner s) =
             (m, (train_loss, train_batches), (val_loss, val_batches))
         \<and> average train_loss train_batches = Inr avg_train
         \<and> average val_loss val_batches = Inr avg_val
         \<and> (if flt avg_val (best_val_loss s)
            then s' = s\<lparr>learner := m, best_val_loss := avg_val, patience_counter := 0,
                        checkpoints := (checkpoints s)
                          (output_file args \<mapsto> model_state_dict T m),
                        console := console s @
                          [EpochLine epoch (epochs args) avg_train avg_val (get_last_lr T m),
                           SavedBest avg_val]\<rparr>
               \<and> \<not> stop
            else if patience args \<le> patience_counter s + 1
            then s' = s\<lparr>learner := m, patience_counter := patience_counter s + 1,
                        console := console s @
                          [EpochLine epoch (epochs args) avg_train avg_val (get_last_lr T m),
                           EarlyStopping epoch (patience args)]\<rparr>
               \<and> stop
            else s' = s\<lparr>learner := m, patience_counter := patience_counter s + 1,
                        console := console s @
                          [EpochLine epoch (epochs args) avg_train avg_val (get_last_lr T m)]\<rparr>
               \<and> \<not> stop)"
proof -
  obtain m train_loss train_batches val_loss val_batches where
    p: "epoch_passes T train_loader val_loader (learner s) =
          (m, (train_loss, train_batches), (val_loss, val_batches))"
    by (metis prod_cases3 surj_pair)
  from assms p obtain avg_train where at: "average train_loss train_batches = Inr avg_train"
    by (cases "average train_loss train_batches") (simp_all add: run_epoch_def)
  from assms p at obtain avg_val where av: "average val_loss val_batches = Inr avg_val"
    by (cases "average val_loss val_batches") (simp_all add: run_epoch_def)
  from assms p at av show ?thesis
    by (auto simp add: run_epoch_def Let_def split: if_splits)
qed



lemma run_epoch_returns:
  assumes "epoch_passes T train_loader val_loader (learner s) =
             (m, (train_loss, train_batches), (val_loss, val_batches))"
    and "average train_loss train_batches = Inr avg_train"
    and "average val_loss val_batches = Inr avg_val"
  shows "\<exists>s' stop extra.
           run_epoch T args train_loader val_loader epoch s = Inr (s', stop)
         \<and> console s' =
              console s @ EpochLine epoch (epochs args) avg_train avg_val (get_last_lr T m) # extra"
  using assms by (auto simp add: run_epoch_def Let_def)

text \<open>
  C7. An epoch never raises a division error, whatever the loaders yield. When the train
  loader yields no batch, as a loader that drops its last batch does on a view shorter
  than the batch size, the epoch completes and the average train loss that it reports is
  0; the average validation loss of an empty validation view is 0 as well.
\<close>

theorem run_epoch_zero_batches:
  "run_epoch T args train_loader val_loader epoch s \<noteq> Inl ZeroDivisionError
   \<and> (fst (loader_batches T train_loader (learner s)) = []
        \<and> \<not> loader_shuffle val_loader
        \<and> 0 < loader_batch_size val_loader
        \<and> Subset_len (loader_view val_loader) < 2 ^ 63 \<longrightarrow>
      (\<exists>s' stop avg_val rate extra.
         run_epoch T args train_loader val_loader epoch s = Inr (s', stop)
       \<and> console s' = console s @ EpochLine epoch (epochs args) (Finite 0) avg_val rate # extra
       \<and> (indices (loader_view val_loader) = [] \<longrightarrow> avg_val = Finite 0)))
   \<and> (loader_drop_last train_loader
        \<and> length (fst (random_order T (learner s) (indices (loader_view train_loader)))) =
            Subset_len (loader_view train_loader)
        \<and> Subset_len (loader_view train_loader) < loader_batch_size train_loader \<longrightarrow>
      fst (loader_batches T train_loader (learner s)) = [])"
proof (intro conjI impI)
  obtain m train_loss train_batches val_loss val_batches where
    p: "epoch_passes T train_loader val_loader (learner s) =
          (m, (train_loss, train_batches), (val_loss, val_batches))"
    by (metis prod_cases3 surj_pair)
  show "run_epoch T args train_loader val_loader epoch s \<noteq> Inl ZeroDivisionError"
    using average_no_zero_division [of train_loss train_batches]
      average_no_zero_division [of val_loss val_batches]
    by (auto simp add: run_epoch_def p Let_def split: sum.splits)
  {
    assume a: "fst (loader_batches T train_loader (learner s)) = []
        \<and> \<not> loader_shuffle val_loader
        \<and> 0 < loader_batch_size val_loader
        \<and> Subset_len (loader_view val_loader) < 2 ^ 63"
    from a epoch_passes_train_empty [OF _ p]
    have "train_loss = Finite 0" and "train_batches = 0"
      by simp_all
    then have at: "average train_loss train_batches = Inr (Finite 0)"
      by (simp add: average_zero_batches)
    have vb: "val_batches =
           int (length (batches_of (loader_batch_size val_loader) (loader_drop_last val_loader)
                  (indices (loader_view val_loader))))"
      using a epoch_passes_val_count(1) [OF _ p] by simp
    have "length (batches_of (loader_batch_size val_loader) (loader_drop_last val_loader)
                  (indices (loader_view val_loader))) \<le> Subset_len (loader_view val_loader)"
      using a length_batches_of_le [of "loader_batch_size val_loader"
                "loader_drop_last val_loader" "indices (loader_view val_loader)"]
      by (simp add: Subset_len_def)
    then have "val_batches < 2 ^ 63"
      using a vb by (metis (no_types) le_less_trans of_nat_less_iff of_nat_numeral of_nat_power)
    from average_small [OF this] obtain d where
      av: "average val_loss val_batches = Inr (fdiv val_loss (Finite d))"
      by blast
    have empty: "fdiv val_loss (Finite d) = Finite 0" if "indices (loader_view val_loader) = []"
    proof -
      from that a epoch_passes_val_count(2) [OF _ p]
      have v0: "val_loss = Finite 0" and b0: "val_batches = 0"
        by simp_all
      have "average val_loss val_batches = Inr (Finite 0)"
        unfolding v0 b0 by (rule average_zero_batches)
      then show ?thesis
        using av by (metis sum.inject(2))
    qed
    from run_epoch_returns [OF p at av] empty
    show "\<exists>s' stop avg_val rate extra.
         run_epoch T args train_loader val_loader epoch s = Inr (s', stop)
       \<and> console s' = console s @ EpochLine epoch (epochs args) (Finite 0) avg_val rate # extra
       \<and> (indices (loader_view val_loader) = [] \<longrightarrow> avg_val = Finite 0)"
      by blast
  }
  {
    assume b: "loader_drop_last train_loader
        \<and> length (fst (random_order T (learner s) (indices (loader_view train_loader)))) =
            Subset_len (loader_view train_loader)
        \<and> Subset_len (loader_view train_loader) < loader_batch_size train_loader"
    then show "fst (loader_batches T train_loader (learner s)) = []"
      by (auto simp add: loader_batches_def Subset_len_def batches_of_short split: prod.splits)
  }
qed

theorem run_epoch_zero_batches_witness:
  "run_epoch (counting_torch (Finite 1)) (wide_args 5 2) wide_train_loader wide_val_loader 1
       first_state \<noteq> Inl ZeroDivisionError
   \<and> (\<exists>s' stop avg_val rate extra.
         run_epoch (counting_torch (Finite 1)) (wide_args 5 2) wide_train_loader wide_val_loader 1
           first_state = Inr (s', stop)
       \<and> console s' =
           console first_state @
             EpochLine 1 (epochs (wide_args 5 2)) (Finite 0) avg_val rate # extra)
   \<and> fst (loader_batches (counting_torch (Finite 1)) wide_train_loader (learner first_state)) = []
   \<and> loader_drop_last wide_train_loader
   \<and> length (fst (random_order (counting_torch (Finite 1)) (learner first_state)
                      (indices (loader_view wide_train_loader)))) = 4
   \<and> Subset_len (loader_view wide_train_loader) = 4
   \<and> loader_batch_size wide_train_loader = 256"
proof -
  have h1: "fst (loader_batches (counting_torch (Finite 1)) wide_train_loader
                   (learner first_state)) = []"
    by code_simp
  have h2: "\<not> loader_shuffle wide_val_loader"
    by (simp add: wide_val_loader_def)
  have h3: "0 < loader_batch_size wide_val_loader"
    by (simp add: wide_val_loader_def)
  have h4: "Subset_len (loader_view wide_val_loader) < 2 ^ 63"
    by (simp add: wide_val_loader_def Subset_len_def)
  have h5: "Subset_len (loader_view wide_train_loader) = 4"
    by (simp add: wide_train_loader_def Subset_len_def)
  have h6: "loader_batch_size wide_train_loader = 256"
    by (simp add: wide_train_loader_def)
  have h7: "loader_drop_last wide_train_loader"
    by (simp add: wide_train_loader_def)
  have h8: "length (fst (random_order (counting_torch (Finite 1)) (learner first_state)
                      (indices (loader_view wide_train_loader)))) = 4"
    by (simp add: wide_train_loader_def counting_torch_def)
  from run_epoch_zero_batches
         [where T = "counting_torch (Finite 1)" and args = "wide_args 5 2"
            and train_loader = wide_train_loader and val_loader = wide_val_loader
            and epoch = 1 and s = first_state]
  show ?thesis
    using h1 h2 h3 h4 h5 h6 h7 h8 by blast
qed

subsection \<open>The epoch loop\<close>











lemma train_Inr:
  assumes "train np entropy T fs args files = (Inr (), files', out)"
  shows "\<exists>train_loader val_loader s0 s'.
           epoch_loop T args train_loader val_loader [1..epochs args] s0 = (Inr (), s')
         \<and> best_val_loss s0 = PosInf
         \<and> patience_counter s0 = 0
         \<and> checkpoints s0 = files
         \<and> last_epoch (console s0) = 0
         \<and> best_epoch (console s0) = 0
         \<and> \<not> stopped_early (console s0)
         \<and> (\<forall>e n a v r. EpochLine e n a v r \<notin> set (console s0))
         \<and> files' = checkpoints s'
         \<and> out = console s' @
                   [TrainingComplete (best_val_loss s'), ModelSavedTo (output_file args)]"
proof -
  from assms obtain train_ds val_ds where
    ls: "load_and_split np entropy fs (data args) (round_binary64 (2 / 10)) 42 =
           Inr (train_ds, val_ds)"
    by (auto simp add: train_def Let_def split: sum.splits)
  from assms ls obtain train_loader where
    tl: "DataLoader_init T train_ds (batch_size args) True True = Inr train_loader"
    by (auto simp add: train_def Let_def split: sum.splits)
  from assms ls tl obtain val_loader where
    vl: "DataLoader_init T val_ds (batch_size args) False False = Inr val_loader"
    by (auto simp add: train_def Let_def split: sum.splits)
  define out2 where
    "out2 = (if Subset_len train_ds < 100
             then [UsingDevice, Samples (Subset_len train_ds) (Subset_len val_ds),
                   SmallDatasetWarning]
             else [UsingDevice, Samples (Subset_len train_ds) (Subset_len val_ds)])"
  define s0 where
    "s0 = \<lparr>learner = new_learner T (lr args) (epochs args), best_val_loss = PosInf,
            patience_counter = 0, checkpoints = files, console = out2\<rparr>"
  obtain r s' where
    loop: "epoch_loop T args train_loader val_loader [1..epochs args] s0 = (r, s')"
    by (cases "epoch_loop T args train_loader val_loader [1..epochs args] s0")
  have t: "train np entropy T fs args files =
             (case r of
                Inl e \<Rightarrow> (Inl e, checkpoints s', console s')
              | Inr u \<Rightarrow>
                  (Inr (), checkpoints s',
                   console s' @
                     [TrainingComplete (best_val_loss s'), ModelSavedTo (output_file args)]))"
  proof (cases "Subset_len train_ds < 100")
    case True
    then show ?thesis
      using ls tl vl loop by (simp add: train_def Let_def s0_def out2_def split: sum.splits)
  next
    case False
    then show ?thesis
      using ls tl vl loop by (simp add: train_def Let_def s0_def out2_def split: sum.splits)
  qed
  from t assms have r: "r = Inr ()" and f: "files' = checkpoints s'"
    and o: "out = console s' @
                   [TrainingComplete (best_val_loss s'), ModelSavedTo (output_file args)]"
    by (cases r; simp)+
  have c: "last_epoch (console s0) = 0" "best_epoch (console s0) = 0"
      "\<not> stopped_early (console s0)" "\<forall>e n a v r. EpochLine e n a v r \<notin> set (console s0)"
    by (simp_all add: s0_def out2_def last_epoch_def best_epoch_def stopped_early_def)
  have "epoch_loop T args train_loader val_loader [1..epochs args] s0 = (Inr (), s')"
    using loop r by simp
  moreover have "best_val_loss s0 = PosInf" "patience_counter s0 = 0" "checkpoints s0 = files"
    by (simp_all add: s0_def)
  ultimately show ?thesis
    using c f o by blast
qed


lemma small_run_outcome: "run_outcome (Finite 1) 5 2 = Inr ()"
  by code_simp

lemma small_run_lines:
  "run_lines (Finite 1) 5 2 =
     [UsingDevice, Samples 4 1, SmallDatasetWarning,
      EpochLine 1 5 (Finite 1) (Finite 1) (Finite 0), SavedBest (Finite 1),
      EpochLine 2 5 (Finite 1) (Finite 1) (Finite 0),
      EpochLine 3 5 (Finite 1) (Finite 1) (Finite 0), EarlyStopping 3 2,
      TrainingComplete (Finite 1), ModelSavedTo ''checkpoints/sailing_ai.pt'']"
  by code_simp

lemma small_run:
  "train numpy_rev 0 (counting_torch (Finite 1)) (zero_files 5) (small_args 5 2) no_files =
     (Inr (), run_files (Finite 1) 5 2, run_lines (Finite 1) 5 2)"
  by (metis small_run_outcome run_outcome_def run_files_def run_lines_def prod.collapse)


subsection \<open>The checkpoint file\<close>

lemma run_epoch_line:
  assumes "run_epoch T args train_loader val_loader e0 s = Inr (s1, stop)"
    and "EpochLine e n a v rt \<in> set (console s1)"
  shows "EpochLine e n a v rt \<in> set (console s)
       \<or> (e = e0 \<and> (flt v (best_val_loss s) \<longrightarrow>
                        (\<exists>y. checkpoints s1 (output_file args) = Some y)))"
proof -
  from run_epoch_Inr [OF assms(1)] obtain m avg_train avg_val where
    r: "if flt avg_val (best_val_loss s)
        then s1 = s\<lparr>learner := m, best_val_loss := avg_val, patience_counter := 0,
                    checkpoints := (checkpoints s)
                      (output_file args \<mapsto> model_state_dict T m),
                    console := console s @
                      [EpochLine e0 (epochs args) avg_train avg_val (get_last_lr T m),
                       SavedBest avg_val]\<rparr>
           \<and> \<not> stop
        else if patience args \<le> patience_counter s + 1
        then s1 = s\<lparr>learner := m, patience_counter := patience_counter s + 1,
                    console := console s @
                      [EpochLine e0 (epochs args) avg_train avg_val (get_last_lr T m),
                       EarlyStopping e0 (patience args)]\<rparr>
           \<and> stop
        else s1 = s\<lparr>learner := m, patience_counter := patience_counter s + 1,
                    console := console s @
                      [EpochLine e0 (epochs args) avg_train avg_val (get_last_lr T m)]\<rparr>
           \<and> \<not> stop"
    by blast
  show ?thesis
  proof (cases "flt avg_val (best_val_loss s)")
    case True
    with r assms(2) show ?thesis
      by auto
  next
    case False
    with r assms(2) show ?thesis
      by (cases "patience args \<le> patience_counter s + 1") auto
  qed
qed

lemma run_epoch_keeps_file:
  assumes "run_epoch T args train_loader val_loader e0 s = Inr (s1, stop)"
    and "checkpoints s k = Some x"
  shows "\<exists>y. checkpoints s1 k = Some y"
proof -
  from run_epoch_Inr [OF assms(1)] have
    "(\<exists>m. checkpoints s1 = (checkpoints s)(output_file args \<mapsto> model_state_dict T m))
     \<or> checkpoints s1 = checkpoints s"
    by (fastforce split: if_splits)
  then show ?thesis
    using assms(2) by auto
qed

lemma epoch_loop_keeps_file:
  assumes "epoch_loop T args train_loader val_loader es s = (r, s')"
    and "checkpoints s k = Some x"
  shows "\<exists>y. checkpoints s' k = Some y"
  using assms
proof (induction es arbitrary: s x)
  case Nil
  then show ?case
    by simp
next
  case (Cons e es)
  show ?case
  proof (cases "run_epoch T args train_loader val_loader e s")
    case (Inl err)
    with Cons.prems show ?thesis
      by simp
  next
    case (Inr p)
    obtain s1 stop where p: "p = (s1, stop)"
      by (cases p)
    from run_epoch_keeps_file [OF Inr [unfolded p] Cons.prems(2)] obtain y where
      y: "checkpoints s1 k = Some y"
      by blast
    show ?thesis
    proof (cases stop)
      case True
      with Cons.prems(1) Inr p have "s' = s1"
        by simp
      then show ?thesis
        using y by simp
    next
      case False
      with Cons.prems(1) Inr p have
        "epoch_loop T args train_loader val_loader es s1 = (r, s')"
        by simp
      from Cons.IH [OF this y] show ?thesis .
    qed
  qed
qed

lemma epoch_loop_lines:
  assumes "epoch_loop T args train_loader val_loader es s = (r, s')"
    and "EpochLine e n a v rt \<in> set (console s')"
  shows "EpochLine e n a v rt \<in> set (console s) \<or> e \<in> set es"
  using assms
proof (induction es arbitrary: s)
  case Nil
  then show ?case
    by simp
next
  case (Cons e0 es)
  show ?case
  proof (cases "run_epoch T args train_loader val_loader e0 s")
    case (Inl err)
    with Cons.prems show ?thesis
      by simp
  next
    case (Inr p)
    obtain s1 stop where p: "p = (s1, stop)"
      by (cases p)
    have origin: "EpochLine e n a v rt \<in> set (console s) \<or> e = e0"
      if "EpochLine e n a v rt \<in> set (console s1)"
      using run_epoch_line [OF Inr [unfolded p] that] by blast
    show ?thesis
    proof (cases stop)
      case True
      with Cons.prems(1) Inr p have "s' = s1"
        by simp
      then show ?thesis
        using origin Cons.prems(2) by auto
    next
      case False
      with Cons.prems(1) Inr p have
        "epoch_loop T args train_loader val_loader es s1 = (r, s')"
        by simp
      from Cons.IH [OF this Cons.prems(2)] show ?thesis
        using origin by auto
    qed
  qed
qed

text \<open>
  C6, as the code has it. After a completed run of at least one epoch whose first epoch
  reports an average validation loss that is a number below infinity (not a NaN, not
  \<open>+inf\<close>), the checkpoint file exists.
\<close>

theorem train_checkpoint_exists:
  assumes "train np entropy T fs args files = (Inr (), files', out)"
    and "1 \<le> epochs args"
    and "EpochLine 1 n avg_train avg_val rate \<in> set out"
    and "avg_val = Finite a \<or> avg_val = NegInf"
  shows "\<exists>sd. files' (output_file args) = Some sd"
proof -
  from train_Inr [OF assms(1)] obtain train_loader val_loader s0 s' where
    loop: "epoch_loop T args train_loader val_loader [1..epochs args] s0 = (Inr (), s')"
    and best: "best_val_loss s0 = PosInf"
    and fresh: "\<forall>e n a v r. EpochLine e n a v r \<notin> set (console s0)"
    and files: "files' = checkpoints s'"
    and out: "out = console s' @
                   [TrainingComplete (best_val_loss s'), ModelSavedTo (output_file args)]"
    by blast
  have upto: "[1..epochs args] = 1 # [2..epochs args]"
    using assms(2) by (simp add: upto.simps)
  have line: "EpochLine 1 n avg_train avg_val rate \<in> set (console s')"
    using assms(3) by (simp add: out)
  have improves: "flt avg_val (best_val_loss s0)"
    using assms(4) best by auto
  obtain s1 stop where run: "run_epoch T args train_loader val_loader 1 s0 = Inr (s1, stop)"
    using loop unfolding upto
    by (cases "run_epoch T args train_loader val_loader 1 s0") auto
  have first: "\<exists>y. checkpoints s1 (output_file args) = Some y"
    if "EpochLine 1 n avg_train avg_val rate \<in> set (console s1)"
    using run_epoch_line [OF run that] fresh improves by blast
  show ?thesis
  proof (cases stop)
    case True
    with loop run have "s' = s1"
      unfolding upto by simp
    then show ?thesis
      using first line files by simp
  next
    case False
    with loop run have rest:
      "epoch_loop T args train_loader val_loader [2..epochs args] s1 = (Inr (), s')"
      unfolding upto by simp
    from epoch_loop_lines [OF rest line] have "EpochLine 1 n avg_train avg_val rate \<in> set (console s1)"
      by auto
    from first [OF this] obtain y where "checkpoints s1 (output_file args) = Some y"
      by blast
    from epoch_loop_keeps_file [OF rest this] show ?thesis
      using files by simp
  qed
qed

theorem train_checkpoint_exists_witness:
  "\<exists>sd. run_files (Finite 1) 5 2 (output_file (small_args 5 2)) = Some sd"
proof -
  have h2: "1 \<le> epochs (small_args 5 2)"
    by (simp add: small_args_def)
  have h3: "EpochLine 1 5 (Finite 1) (Finite 1) (Finite 0) \<in> set (run_lines (Finite 1) 5 2)"
    by (simp add: small_run_lines)
  have h4: "Finite 1 = Finite 1 \<or> Finite 1 = NegInf"
    by simp
  from train_checkpoint_exists [OF small_run h2 h3 h4] show ?thesis .
qed

text \<open>
  C6, as the claim has it, fails when the loss is not a number. A run of three epochs
  whose validation losses are NaN completes and prints that the model is saved, yet no
  epoch improves on the initial infinite best loss, since \<open>nan < inf\<close> is false, and
  the checkpoint file does not exist.
\<close>

theorem train_checkpoint_exists_counterexample:
  "run_outcome NaN 3 10 = Inr ()
   \<and> epochs (small_args 3 10) = 3
   \<and> output_file (small_args 3 10) = ''checkpoints/sailing_ai.pt''
   \<and> EpochLine 1 3 (Finite 1) NaN (Finite 0) \<in> set (run_lines NaN 3 10)
   \<and> ModelSavedTo ''checkpoints/sailing_ai.pt'' \<in> set (run_lines NaN 3 10)
   \<and> run_files NaN 3 10 ''checkpoints/sailing_ai.pt'' = None"
proof -
  have a: "run_outcome NaN 3 10 = Inr ()"
    by code_simp
  have b: "epochs (small_args 3 10) = 3"
    and c: "output_file (small_args 3 10) = ''checkpoints/sailing_ai.pt''"
    by (simp_all add: small_args_def)
  have d: "run_lines NaN 3 10 =
     [UsingDevice, Samples 4 1, SmallDatasetWarning,
      EpochLine 1 3 (Finite 1) NaN (Finite 0),
      EpochLine 2 3 (Finite 1) NaN (Finite 0),
      EpochLine 3 3 (Finite 1) NaN (Finite 0),
      TrainingComplete PosInf, ModelSavedTo ''checkpoints/sailing_ai.pt'']"
    by code_simp
  have e: "run_files NaN 3 10 ''checkpoints/sailing_ai.pt'' = None"
    by code_simp
  show ?thesis
    using a b c e by (simp add: d)
qed

end
